theory Spec2Isabelle
  imports Complex_Main
begin

section \<open>The Kurucz dataset pipeline of \<^verbatim>\<open>model.py\<close>\<close>

text \<open>
  The theory embeds the data pipeline of class \<^verbatim>\<open>KuruczDataset\<close>: the optical depth
  integration, the padding of depth profiles, the normalization statistics, the
  normalize/denormalize pair, the samples of \<^verbatim>\<open>__getitem__\<close> and the inverse transform
  of the outputs. A finite float is idealised as a real number (no rounding, no
  overflow) and an int64 as an integer (no wrap-around); the infinities and NaN are
  values of their own. Exceptions are values of the type \<open>error\<close>, on the left of a sum.
\<close>

subsection \<open>Errors and Python indexing\<close>

datatype error = IndexError | KeyError | ValueError | RuntimeError | TypeError

definition bindE :: "error + 'a \<Rightarrow> ('a \<Rightarrow> error + 'b) \<Rightarrow> error + 'b" where
  "bindE m f = (case m of Inl e \<Rightarrow> Inl e | Inr x \<Rightarrow> f x)"

text \<open>\<^verbatim>\<open>xs[i]\<close> with Python's int index: a negative index counts from the end.\<close>

definition py_index :: "'a list \<Rightarrow> int \<Rightarrow> error + 'a" where
  "py_index xs i =
     (let n = int (length xs); j = (if i < 0 then i + n else i)
      in if 0 \<le> j \<and> j < n then Inr (xs ! nat j) else Inl IndexError)"

text \<open>\<^verbatim>\<open>values[:stop]\<close>: a negative stop counts from the end and is clipped at 0.\<close>

definition slice_to :: "'a list \<Rightarrow> int \<Rightarrow> 'a list" where
  "slice_to values stop =
     (if 0 \<le> stop then take (nat stop) values
      else take (nat (int (length values) + stop)) values)"

subsection \<open>\<^verbatim>\<open>pad_sequence\<close>\<close>

text \<open>
  \<^verbatim>\<open>values[-1]\<close> raises IndexError on the empty list; \<^verbatim>\<open>[v] * n\<close> is \<open>n\<close> copies of
  \<open>v\<close> (none when \<open>n \<le> 0\<close>).
\<close>

definition pad_sequence :: "'a list \<Rightarrow> int \<Rightarrow> error + 'a list" where
  "pad_sequence values target_length =
     (if int (length values) \<ge> target_length then Inr (slice_to values target_length)
      else
        (let padding_needed = target_length - int (length values) in
         bindE (py_index values (- 1))
           (\<lambda>last_value. Inr (values @ replicate (nat padding_needed) last_value))))"

subsection \<open>Python numbers and numpy arrays\<close>

text \<open>
  An entry of a profile is a Python int or a Python float. \<^verbatim>\<open>np.array\<close> of a list of ints
  is an int64 array; of a list with a float, and of the empty list, a float64 array.
\<close>

datatype pynum = PyInt int | PyFloat real

fun to_real :: "pynum \<Rightarrow> real" where
  "to_real (PyInt k) = of_int k"
| "to_real (PyFloat x) = x"

fun is_int :: "pynum \<Rightarrow> bool" where
  "is_int (PyInt k) = True"
| "is_int (PyFloat x) = False"

fun int_of :: "pynum \<Rightarrow> int" where
  "int_of (PyInt k) = k"
| "int_of (PyFloat x) = 0"

datatype ndarray = IntArray "int list" | FloatArray "real list"

definition np_array :: "pynum list \<Rightarrow> ndarray" where
  "np_array xs =
     (if xs \<noteq> [] \<and> list_all is_int xs then IntArray (map int_of xs)
      else FloatArray (map to_real xs))"

text \<open>\<^verbatim>\<open>len(a)\<close>, \<^verbatim>\<open>np.zeros_like(a)\<close> (of the dtype of \<open>a\<close>) and \<^verbatim>\<open>a.tolist()\<close>.\<close>

fun array_len :: "ndarray \<Rightarrow> nat" where
  "array_len (IntArray xs) = length xs"
| "array_len (FloatArray xs) = length xs"

fun zeros_like :: "ndarray \<Rightarrow> ndarray" where
  "zeros_like (IntArray xs) = IntArray (replicate (length xs) 0)"
| "zeros_like (FloatArray xs) = FloatArray (replicate (length xs) 0)"

fun tolist :: "ndarray \<Rightarrow> pynum list" where
  "tolist (IntArray xs) = map PyInt xs"
| "tolist (FloatArray xs) = map PyFloat xs"

text \<open>
  \<^verbatim>\<open>a[i]\<close> for an index in range, as the number it enters float arithmetic with, and the
  assignment \<^verbatim>\<open>a[i] = x\<close> of a float: an int64 array stores the float truncated toward
  zero.
\<close>

fun item :: "ndarray \<Rightarrow> nat \<Rightarrow> real" where
  "item (IntArray xs) i = of_int (xs ! i)"
| "item (FloatArray xs) i = xs ! i"

definition trunc :: "real \<Rightarrow> int" where
  "trunc x = (if 0 \<le> x then \<lfloor>x\<rfloor> else \<lceil>x\<rceil>)"

fun setitem :: "ndarray \<Rightarrow> nat \<Rightarrow> real \<Rightarrow> ndarray" where
  "setitem (IntArray xs) i x = IntArray (xs[i := trunc x])"
| "setitem (FloatArray xs) i x = FloatArray (xs[i := x])"

subsection \<open>The model dictionary and \<^verbatim>\<open>calculate_tau\<close>\<close>

text \<open>
  A model is the dictionary returned by the external reader: four stellar parameters
  (\<^verbatim>\<open>feh\<close> and \<^verbatim>\<open>afe\<close> may be \<^verbatim>\<open>None\<close>; \<^verbatim>\<open>torch.tensor\<close> makes floats of them, so an int is
  the float of its value) and the depth profiles, lists of numbers.
  \<^verbatim>\<open>calculate_tau\<close> stores the key \<^verbatim>\<open>TAU\<close>; the record returned is the mutated dictionary.
  The names \<^verbatim>\<open>np\<close>, \<^verbatim>\<open>glob\<close> and \<^verbatim>\<open>os\<close> of the source are the modules numpy, glob and os.
\<close>

record atm_model =
  m_teff :: real
  m_gravity :: real
  m_feh :: "real option"
  m_afe :: "real option"
  m_RHOX :: "pynum list"
  m_T :: "pynum list"
  m_P :: "pynum list"
  m_XNE :: "pynum list"
  m_ABROSS :: "pynum list"
  m_ACCRAD :: "pynum list"
  m_TAU :: "pynum list"

text \<open>
  The body of the loop \<^verbatim>\<open>for i in range(1, len(rhox))\<close>, over the indices still to
  visit. \<^verbatim>\<open>rhox[i]\<close>, \<^verbatim>\<open>rhox[i-1]\<close> and \<^verbatim>\<open>tau[i]\<close> are in range for every such \<open>i\<close>
  (\<^verbatim>\<open>tau\<close> is \<^verbatim>\<open>zeros_like(rhox)\<close>); \<^verbatim>\<open>abross[i]\<close> raises IndexError when \<^verbatim>\<open>abross\<close> is
  too short. The division by \<^verbatim>\<open>2.0\<close> makes \<^verbatim>\<open>avg_opacity\<close> and \<^verbatim>\<open>delta_tau\<close> floats.
\<close>

fun tau_loop :: "ndarray \<Rightarrow> ndarray \<Rightarrow> nat list \<Rightarrow> ndarray \<Rightarrow> error + ndarray" where
  "tau_loop rhox abross [] tau = Inr tau"
| "tau_loop rhox abross (i # rest) tau =
     (if i < array_len rhox \<and> i < array_len abross then
        (let delta_rhox = item rhox i - item rhox (i - 1);
             avg_opacity = (item abross i + item abross (i - 1)) / 2;
             delta_tau = avg_opacity * delta_rhox
         in tau_loop rhox abross rest (setitem tau i (item tau (i - 1) + delta_tau)))
      else Inl IndexError)"

definition tau_of :: "pynum list \<Rightarrow> pynum list \<Rightarrow> error + pynum list" where
  "tau_of rhox_list abross_list =
     (let rhox = np_array rhox_list;
          abross = np_array abross_list;
          tau = zeros_like rhox
      in bindE (tau_loop rhox abross [1..<array_len rhox] tau) (\<lambda>tau. Inr (tolist tau)))"

definition calculate_tau :: "atm_model \<Rightarrow> error + atm_model" where
  "calculate_tau model =
     bindE (tau_of (m_RHOX model) (m_ABROSS model)) (\<lambda>tau. Inr (model\<lparr>m_TAU := tau\<rparr>))"

subsection \<open>Floats and tensors\<close>

text \<open>
  A float is a real number, an infinity or NaN; torch raises nothing on them. The
  arithmetic is that of IEEE 754 with every finite result exact. A zero is taken as
  \<open>+0\<close>: the only divisor of the program that can be zero is \<^verbatim>\<open>max - min\<close>, and \<open>x - x\<close> is
  \<open>+0\<close>. \<open>signed_inf x\<close> is the infinity of the sign of \<open>x\<close>, and NaN for \<open>x = 0\<close>.
\<close>

datatype fval = Fin real | PInf | MInf | NaN

definition signed_inf :: "real \<Rightarrow> fval" where
  "signed_inf x = (if 0 < x then PInf else if x < 0 then MInf else NaN)"

fun fneg :: "fval \<Rightarrow> fval" where
  "fneg (Fin x) = Fin (- x)"
| "fneg PInf = MInf"
| "fneg MInf = PInf"
| "fneg NaN = NaN"

fun fadd :: "fval \<Rightarrow> fval \<Rightarrow> fval" where
  "fadd (Fin x) (Fin y) = Fin (x + y)"
| "fadd NaN y = NaN"
| "fadd x NaN = NaN"
| "fadd PInf MInf = NaN"
| "fadd MInf PInf = NaN"
| "fadd PInf y = PInf"
| "fadd x PInf = PInf"
| "fadd MInf y = MInf"
| "fadd x MInf = MInf"

definition fsub :: "fval \<Rightarrow> fval \<Rightarrow> fval" where
  "fsub x y = fadd x (fneg y)"

fun fmul :: "fval \<Rightarrow> fval \<Rightarrow> fval" where
  "fmul (Fin x) (Fin y) = Fin (x * y)"
| "fmul NaN y = NaN"
| "fmul x NaN = NaN"
| "fmul (Fin x) PInf = signed_inf x"
| "fmul (Fin x) MInf = signed_inf (- x)"
| "fmul PInf (Fin y) = signed_inf y"
| "fmul MInf (Fin y) = signed_inf (- y)"
| "fmul PInf PInf = PInf"
| "fmul MInf MInf = PInf"
| "fmul PInf MInf = MInf"
| "fmul MInf PInf = MInf"

fun fdiv :: "fval \<Rightarrow> fval \<Rightarrow> fval" where
  "fdiv (Fin x) (Fin y) = (if y = 0 then signed_inf x else Fin (x / y))"
| "fdiv NaN y = NaN"
| "fdiv x NaN = NaN"
| "fdiv (Fin x) PInf = Fin 0"
| "fdiv (Fin x) MInf = Fin 0"
| "fdiv PInf (Fin y) = (if 0 \<le> y then PInf else MInf)"
| "fdiv MInf (Fin y) = (if 0 \<le> y then MInf else PInf)"
| "fdiv PInf PInf = NaN"
| "fdiv PInf MInf = NaN"
| "fdiv MInf PInf = NaN"
| "fdiv MInf MInf = NaN"

text \<open>
  \<^verbatim>\<open>torch.log10\<close> is \<open>-inf\<close> at zero and NaN on a negative number; \<^verbatim>\<open>torch.pow(10.0, x)\<close>
  is 0 at \<open>-inf\<close>.
\<close>

fun flog10 :: "fval \<Rightarrow> fval" where
  "flog10 (Fin x) = (if 0 < x then Fin (log 10 x) else if x = 0 then MInf else NaN)"
| "flog10 PInf = PInf"
| "flog10 MInf = NaN"
| "flog10 NaN = NaN"

fun fpow10 :: "fval \<Rightarrow> fval" where
  "fpow10 (Fin x) = Fin (10 powr x)"
| "fpow10 PInf = PInf"
| "fpow10 MInf = Fin 0"
| "fpow10 NaN = NaN"

text \<open>
  The binary steps of \<^verbatim>\<open>min\<close> and \<^verbatim>\<open>max\<close> over the entries of a tensor: a NaN makes the
  result NaN, and an infinity is the least or the greatest value.
\<close>

fun fmin :: "fval \<Rightarrow> fval \<Rightarrow> fval" where
  "fmin (Fin x) (Fin y) = Fin (min x y)"
| "fmin NaN y = NaN"
| "fmin x NaN = NaN"
| "fmin MInf y = MInf"
| "fmin x MInf = MInf"
| "fmin PInf y = y"
| "fmin x PInf = x"

fun fmax :: "fval \<Rightarrow> fval \<Rightarrow> fval" where
  "fmax (Fin x) (Fin y) = Fin (max x y)"
| "fmax NaN y = NaN"
| "fmax x NaN = NaN"
| "fmax PInf y = PInf"
| "fmax x PInf = PInf"
| "fmax MInf y = y"
| "fmax x MInf = x"

text \<open>The constant \<^verbatim>\<open>1e-30\<close>.\<close>

definition eps30 :: real where
  "eps30 = 1 / 10 ^ 30"

text \<open>
  A tensor of 0 to 3 dimensions, as nested lists of its entries together with the sizes
  that the lists do not give when a leading size is 0: \<open>T2 w rows\<close> has shape
  \<open>(length rows, w)\<close> and \<open>T3 d c ms\<close> has shape \<open>(length ms, d, c)\<close>.
\<close>

datatype tensor =
  T0 fval | T1 "fval list" | T2 nat "fval list list" | T3 nat nat "fval list list list"

fun shape :: "tensor \<Rightarrow> nat list" where
  "shape (T0 x) = []"
| "shape (T1 xs) = [length xs]"
| "shape (T2 w rows) = [length rows, w]"
| "shape (T3 d c ms) = [length ms, d, c]"

text \<open>\<^verbatim>\<open>t.dim()\<close>, the number of dimensions.\<close>

fun ndim :: "tensor \<Rightarrow> nat" where
  "ndim (T0 x) = 0"
| "ndim (T1 xs) = 1"
| "ndim (T2 w rows) = 2"
| "ndim (T3 d c ms) = 3"

fun tmap :: "(fval \<Rightarrow> fval) \<Rightarrow> tensor \<Rightarrow> tensor" where
  "tmap f (T0 x) = T0 (f x)"
| "tmap f (T1 xs) = T1 (map f xs)"
| "tmap f (T2 w rows) = T2 w (map (map f) rows)"
| "tmap f (T3 d c ms) = T3 d c (map (map (map f)) ms)"

fun elems :: "tensor \<Rightarrow> fval list" where
  "elems (T0 x) = [x]"
| "elems (T1 xs) = xs"
| "elems (T2 w rows) = concat rows"
| "elems (T3 d c ms) = concat (concat ms)"

fun seqE :: "(error + 'a) list \<Rightarrow> error + 'a list" where
  "seqE [] = Inr []"
| "seqE (m # ms) = bindE m (\<lambda>x. bindE (seqE ms) (\<lambda>xs. Inr (x # xs)))"

text \<open>
  Broadcasting of an elementwise binary operation: the shapes are aligned from the
  right, and along one dimension two sizes go together when they are equal or one of
  them is 1; otherwise torch raises a RuntimeError. \<open>bshape\<close> is the shape of the result.
\<close>

definition bdim :: "nat \<Rightarrow> nat \<Rightarrow> nat option" where
  "bdim m n = (if m = n then Some m else if m = 1 then Some n else if n = 1 then Some m else None)"

fun bshape_rev :: "nat list \<Rightarrow> nat list \<Rightarrow> nat list option" where
  "bshape_rev [] ns = Some ns"
| "bshape_rev ms [] = Some ms"
| "bshape_rev (m # ms) (n # ns) =
     (case bdim m n of
        None \<Rightarrow> None
      | Some d \<Rightarrow> (case bshape_rev ms ns of None \<Rightarrow> None | Some ds \<Rightarrow> Some (d # ds)))"

definition bshape :: "nat list \<Rightarrow> nat list \<Rightarrow> nat list option" where
  "bshape s t = map_option rev (bshape_rev (rev s) (rev t))"

text \<open>
  Once the shapes go together, both tensors are taken with three dimensions (leading
  sizes 1) and combined level by level; a list of one element is repeated.
\<close>

definition bzip :: "('a \<Rightarrow> 'b \<Rightarrow> 'c) \<Rightarrow> 'a list \<Rightarrow> 'b list \<Rightarrow> 'c list" where
  "bzip g xs ys =
     (if length xs = length ys then map2 g xs ys
      else if length xs = 1 then map (g (hd xs)) ys
      else map (\<lambda>x. g x (hd ys)) xs)"

fun nest3 :: "tensor \<Rightarrow> fval list list list" where
  "nest3 (T0 x) = [[[x]]]"
| "nest3 (T1 xs) = [[xs]]"
| "nest3 (T2 w rows) = [rows]"
| "nest3 (T3 d c ms) = ms"

fun unnest :: "nat list \<Rightarrow> fval list list list \<Rightarrow> tensor" where
  "unnest [] ms = T0 (hd (hd (hd ms)))"
| "unnest [n] ms = T1 (hd (hd ms))"
| "unnest [n, w] ms = T2 w (hd ms)"
| "unnest (n # d # c # s) ms = T3 d c ms"

fun bcast :: "(fval \<Rightarrow> fval \<Rightarrow> fval) \<Rightarrow> tensor \<Rightarrow> tensor \<Rightarrow> error + tensor" where
  "bcast f a (T0 y) = Inr (tmap (\<lambda>x. f x y) a)"
| "bcast f (T0 x) b = Inr (tmap (f x) b)"
| "bcast f a b =
     (case bshape (shape a) (shape b) of
        None \<Rightarrow> Inl RuntimeError
      | Some s \<Rightarrow> Inr (unnest s (bzip (bzip (bzip f)) (nest3 a) (nest3 b))))"

text \<open>
  \<^verbatim>\<open>t.min()\<close> and \<^verbatim>\<open>t.max()\<close> over all entries (a RuntimeError on a tensor without
  entries), and \<^verbatim>\<open>t.min(dim=0).values\<close>, \<^verbatim>\<open>t.max(dim=0).values\<close> across the first dimension
  (an IndexError when its size is 0).
\<close>

definition reduce_all :: "(fval \<Rightarrow> fval \<Rightarrow> fval) \<Rightarrow> tensor \<Rightarrow> error + tensor" where
  "reduce_all f t = (case elems t of [] \<Rightarrow> Inl RuntimeError | x # xs \<Rightarrow> Inr (T0 (fold f xs x)))"

fun reduce_dim0 :: "(fval \<Rightarrow> fval \<Rightarrow> fval) \<Rightarrow> tensor \<Rightarrow> error + tensor" where
  "reduce_dim0 f (T0 x) = Inr (T0 x)"
| "reduce_dim0 f (T1 []) = Inl IndexError"
| "reduce_dim0 f (T1 (x # xs)) = Inr (T0 (fold f xs x))"
| "reduce_dim0 f (T2 w []) = Inl IndexError"
| "reduce_dim0 f (T2 w (r # rs)) = Inr (T1 (fold (map2 f) rs r))"
| "reduce_dim0 f (T3 d c []) = Inl IndexError"
| "reduce_dim0 f (T3 d c (m # ms)) = Inr (T2 c (fold (map2 (map2 f)) ms m))"

subsection \<open>\<^verbatim>\<open>setup_normalization\<close>\<close>

record norm_param =
  p_min :: tensor
  p_max :: tensor
  log_scale :: bool

definition log_params :: "string list" where
  "log_params = [''teff'', ''RHOX'', ''P'', ''XNE'', ''ABROSS'', ''ACCRAD'', ''TAU'']"

text \<open>The body of the loop over \<^verbatim>\<open>self.original.items()\<close>: the entry stored for one feature.\<close>

definition norm_stats :: "string \<Rightarrow> tensor \<Rightarrow> error + norm_param" where
  "norm_stats param_name data =
     (let log_scale = (param_name \<in> set log_params);
          transformed_data =
            (if log_scale then tmap (\<lambda>x. flog10 (fadd x (Fin eps30))) data else data)
      in if ndim transformed_data > 2 then
           bindE (reduce_dim0 fmin transformed_data) (\<lambda>param_min.
           bindE (reduce_dim0 fmax transformed_data) (\<lambda>param_max.
           Inr \<lparr>p_min = param_min, p_max = param_max, log_scale = log_scale\<rparr>))
         else
           bindE (reduce_all fmin transformed_data) (\<lambda>param_min.
           bindE (reduce_all fmax transformed_data) (\<lambda>param_max.
           Inr \<lparr>p_min = param_min, p_max = param_max, log_scale = log_scale\<rparr>)))"

text \<open>
  The loop itself, over the items of the bundle \<^verbatim>\<open>self.original\<close> in their order; the
  second argument is the dictionary \<^verbatim>\<open>self.norm_params\<close>.
\<close>

fun setup_normalization ::
  "(string \<times> tensor) list \<Rightarrow> (string \<rightharpoonup> norm_param) \<Rightarrow> error + (string \<rightharpoonup> norm_param)" where
  "setup_normalization [] norm_params = Inr norm_params"
| "setup_normalization ((param_name, data) # items) norm_params =
     bindE (norm_stats param_name data)
       (\<lambda>p. setup_normalization items (norm_params(param_name \<mapsto> p)))"

subsection \<open>\<^verbatim>\<open>normalize\<close> and \<^verbatim>\<open>denormalize\<close>\<close>

text \<open>
  The method \<^verbatim>\<open>normalize\<close> is \<open>normalize_feature\<close> here (HOL has a constant \<open>normalize\<close>).
  The first argument of both is the dictionary \<^verbatim>\<open>self.norm_params\<close>, a KeyError when the
  name is not in it; \<^verbatim>\<open>.to(self.device)\<close> changes no value.
\<close>

definition normalize_feature :: "(string \<rightharpoonup> norm_param) \<Rightarrow> string \<Rightarrow> tensor \<Rightarrow> error + tensor" where
  "normalize_feature norm_params param_name data =
     (case norm_params param_name of
        None \<Rightarrow> Inl KeyError
      | Some params \<Rightarrow>
          (let transformed_data =
                 (if log_scale params then tmap (\<lambda>x. flog10 (fadd x (Fin eps30))) data else data)
           in bindE (bcast fsub transformed_data (p_min params)) (\<lambda>shifted.
              bindE (bcast fsub (p_max params) (p_min params)) (\<lambda>width.
              bindE (bcast fdiv (tmap (fmul (Fin 2)) shifted) width) (\<lambda>scaled.
              Inr (tmap (\<lambda>x. fsub x (Fin 1)) scaled))))))"

definition denormalize :: "(string \<rightharpoonup> norm_param) \<Rightarrow> string \<Rightarrow> tensor \<Rightarrow> error + tensor" where
  "denormalize norm_params param_name normalized_data =
     (case norm_params param_name of
        None \<Rightarrow> Inl KeyError
      | Some params \<Rightarrow>
          bindE (bcast fsub (p_max params) (p_min params)) (\<lambda>width.
          bindE (bcast fmul (tmap (\<lambda>x. fdiv (fadd x (Fin 1)) (Fin 2)) normalized_data) width)
            (\<lambda>scaled.
          bindE (bcast fadd scaled (p_min params)) (\<lambda>transformed_data.
          Inr (if log_scale params
               then tmap (\<lambda>x. fsub (fpow10 x) (Fin eps30)) transformed_data
               else transformed_data)))))"

subsection \<open>\<^verbatim>\<open>prepare_data\<close>\<close>

text \<open>
  The body of the loop over \<^verbatim>\<open>self.models\<close>: the seven profiles padded or truncated to
  \<^verbatim>\<open>max_depth_points\<close>, in the order of the source; a failing \<^verbatim>\<open>pad_sequence\<close> ends
  \<^verbatim>\<open>prepare_data\<close>.
\<close>

definition pad_profiles :: "int \<Rightarrow> atm_model \<Rightarrow> error + atm_model" where
  "pad_profiles max_depth_points model =
     bindE (pad_sequence (m_RHOX model) max_depth_points) (\<lambda>rhox.
     bindE (pad_sequence (m_T model) max_depth_points) (\<lambda>t.
     bindE (pad_sequence (m_P model) max_depth_points) (\<lambda>p.
     bindE (pad_sequence (m_XNE model) max_depth_points) (\<lambda>xne.
     bindE (pad_sequence (m_ABROSS model) max_depth_points) (\<lambda>abross.
     bindE (pad_sequence (m_ACCRAD model) max_depth_points) (\<lambda>accrad.
     bindE (pad_sequence (m_TAU model) max_depth_points) (\<lambda>tau.
     Inr (model\<lparr>m_RHOX := rhox, m_T := t, m_P := p, m_XNE := xne, m_ABROSS := abross,
                m_ACCRAD := accrad, m_TAU := tau\<rparr>))))))))"

text \<open>\<^verbatim>\<open>x if x is not None else 0.0\<close>.\<close>

definition or_zero :: "real option \<Rightarrow> real" where
  "or_zero x = (case x of None \<Rightarrow> 0 | Some v \<Rightarrow> v)"

definition same_length :: "'a list list \<Rightarrow> bool" where
  "same_length rows = (case rows of [] \<Rightarrow> True | r # rs \<Rightarrow> list_all (\<lambda>q. length q = length r) rs)"

text \<open>
  \<^verbatim>\<open>torch.tensor(xs, dtype=torch.float32).unsqueeze(1)\<close> of a list of numbers, of shape
  \<open>(N, 1)\<close>, and \<^verbatim>\<open>torch.tensor(rows, dtype=torch.float32)\<close> of a list of lists of
  numbers, a ValueError when the rows differ in length (the empty list gives the 1-D
  tensor without entries). An int becomes the float of its value.
\<close>

definition column_tensor :: "real list \<Rightarrow> tensor" where
  "column_tensor xs = T2 1 (map (\<lambda>x. [Fin x]) xs)"

definition matrix_tensor :: "pynum list list \<Rightarrow> error + tensor" where
  "matrix_tensor rows =
     (if rows = [] then Inr (T1 [])
      else if same_length rows
      then Inr (T2 (length (hd rows)) (map (map (\<lambda>x. Fin (to_real x))) rows))
      else Inl ValueError)"

text \<open>The result is the dictionary \<^verbatim>\<open>self.original\<close>, with its keys in their order.\<close>

definition prepare_data :: "atm_model list \<Rightarrow> int \<Rightarrow> error + (string \<times> tensor) list" where
  "prepare_data models max_depth_points =
     bindE (seqE (map (pad_profiles max_depth_points) models)) (\<lambda>padded.
     (let teff_list = map m_teff padded;
          gravity_list = map m_gravity padded;
          feh_list = map (\<lambda>model. or_zero (m_feh model)) padded;
          afe_list = map (\<lambda>model. or_zero (m_afe model)) padded
      in bindE (matrix_tensor (map m_RHOX padded)) (\<lambda>rhox.
         bindE (matrix_tensor (map m_T padded)) (\<lambda>t.
         bindE (matrix_tensor (map m_P padded)) (\<lambda>p.
         bindE (matrix_tensor (map m_XNE padded)) (\<lambda>xne.
         bindE (matrix_tensor (map m_ABROSS padded)) (\<lambda>abross.
         bindE (matrix_tensor (map m_ACCRAD padded)) (\<lambda>accrad.
         bindE (matrix_tensor (map m_TAU padded)) (\<lambda>tau.
         Inr [(''teff'', column_tensor teff_list), (''gravity'', column_tensor gravity_list),
              (''feh'', column_tensor feh_list), (''afe'', column_tensor afe_list),
              (''RHOX'', rhox), (''T'', t), (''P'', p), (''XNE'', xne), (''ABROSS'', abross),
              (''ACCRAD'', accrad), (''TAU'', tau)])))))))))"

subsection \<open>The dataset and its construction\<close>


text \<open>\<^verbatim>\<open>self.original[name]\<close>, a KeyError on a missing key.\<close>

definition lookup :: "(string \<times> 'a) list \<Rightarrow> string \<Rightarrow> error + 'a" where
  "lookup d name = (case map_of d name of None \<Rightarrow> Inl KeyError | Some v \<Rightarrow> Inr v)"





subsection \<open>\<^verbatim>\<open>__len__\<close> and \<^verbatim>\<open>__getitem__\<close>\<close>














subsection \<open>\<^verbatim>\<open>inverse_transform_outputs\<close>\<close>

text \<open>
  \<^verbatim>\<open>outputs[:, :, i]\<close>: the \<open>i\<close>-th channel of every entry of a 3-D tensor, an IndexError
  when the last dimension has no index \<open>i\<close> (whatever the other sizes are), and when the
  tensor has fewer than three dimensions.
\<close>

fun select_last :: "tensor \<Rightarrow> nat \<Rightarrow> error + tensor" where
  "select_last (T3 d c ms) i =
     (if i < c then Inr (T2 d (map (map (\<lambda>cell. cell ! i)) ms)) else Inl IndexError)"
| "select_last t i = Inl IndexError"

definition columns :: "string list" where
  "columns = [''RHOX'', ''T'', ''P'', ''XNE'', ''ABROSS'', ''ACCRAD'', ''TAU'']"

text \<open>
  The loop over \<^verbatim>\<open>enumerate(columns)\<close>, with the dictionary \<^verbatim>\<open>result\<close>, whose entries
  start as \<^verbatim>\<open>None\<close>.
\<close>

fun denormalize_columns ::
  "(string \<rightharpoonup> norm_param) \<Rightarrow> tensor \<Rightarrow> (nat \<times> string) list
     \<Rightarrow> (string \<rightharpoonup> tensor option) \<Rightarrow> error + (string \<rightharpoonup> tensor option)" where
  "denormalize_columns norm_params outputs [] result = Inr result"
| "denormalize_columns norm_params outputs ((i, param_name) # rest) result =
     bindE (select_last outputs i) (\<lambda>feature_data.
     bindE (denormalize norm_params param_name feature_data) (\<lambda>d.
     denormalize_columns norm_params outputs rest (result(param_name \<mapsto> Some d))))"

text \<open>
  Unpacking \<^verbatim>\<open>outputs.shape\<close> into three names is a ValueError unless the tensor has
  three dimensions.
\<close>

definition inverse_transform_outputs ::
  "(string \<rightharpoonup> norm_param) \<Rightarrow> tensor \<Rightarrow> error + (string \<rightharpoonup> tensor option)" where
  "inverse_transform_outputs norm_params outputs =
     (if ndim outputs = 3
      then denormalize_columns norm_params outputs (enumerate 0 columns)
             (\<lambda>param. if param \<in> set columns then Some None else None)
      else Inl ValueError)"

subsection \<open>Auxiliary notions for the statements\<close>

text \<open>The log transform of one entry, as \<^verbatim>\<open>setup_normalization\<close> and \<^verbatim>\<open>normalize\<close> apply it.\<close>

abbreviation log_transform :: "bool \<Rightarrow> fval \<Rightarrow> fval" where
  "log_transform ls x \<equiv> (if ls then flog10 (fadd x (Fin eps30)) else x)"

definition transformed :: "string \<Rightarrow> fval \<Rightarrow> fval" where
  "transformed name x = (if name \<in> set log_params then flog10 (fadd x (Fin eps30)) else x)"

text \<open>What \<^verbatim>\<open>normalize\<close> and \<^verbatim>\<open>denormalize\<close> do to one entry when the bounds are scalars.\<close>

definition norm_val :: "norm_param \<Rightarrow> fval \<Rightarrow> fval \<Rightarrow> fval \<Rightarrow> fval" where
  "norm_val p mn mx x =
     fsub (fdiv (fmul (Fin 2) (fsub (if log_scale p then flog10 (fadd x (Fin eps30)) else x) mn))
       (fsub mx mn)) (Fin 1)"



text \<open>
  The order of the floats that are not NaN, and the minimum and the maximum of a list of
  floats as torch defines them: NaN when an entry is NaN, and otherwise an entry that
  is below (above) every entry.
\<close>

fun fle :: "fval \<Rightarrow> fval \<Rightarrow> bool" where
  "fle (Fin x) (Fin y) = (x \<le> y)"
| "fle NaN y = False"
| "fle x NaN = False"
| "fle MInf y = True"
| "fle x PInf = True"
| "fle PInf y = False"
| "fle x MInf = False"

definition is_min_of :: "fval \<Rightarrow> fval list \<Rightarrow> bool" where
  "is_min_of m xs \<longleftrightarrow> (if NaN \<in> set xs then m = NaN else m \<in> set xs \<and> (\<forall>y\<in>set xs. fle m y))"

definition is_max_of :: "fval \<Rightarrow> fval list \<Rightarrow> bool" where
  "is_max_of m xs \<longleftrightarrow> (if NaN \<in> set xs then m = NaN else m \<in> set xs \<and> (\<forall>y\<in>set xs. fle y m))"

text \<open>\<^verbatim>\<open>torch.isfinite(t).all()\<close>: every entry is a finite number.\<close>

fun finite_val :: "fval \<Rightarrow> bool" where
  "finite_val (Fin x) = True"
| "finite_val x = False"

definition all_finite :: "tensor \<Rightarrow> bool" where
  "all_finite t = list_all finite_val (elems t)"


text \<open>
  The bundle \<^verbatim>\<open>self.original\<close> that \<^verbatim>\<open>prepare_data\<close> builds from the padded models.
\<close>

definition bundle_of :: "atm_model list \<Rightarrow> (string \<times> tensor) list \<Rightarrow> bool" where
  "bundle_of padded original \<longleftrightarrow>
     (\<exists>rhox t p xne abross accrad tau.
        matrix_tensor (map m_RHOX padded) = Inr rhox \<and> matrix_tensor (map m_T padded) = Inr t \<and>
        matrix_tensor (map m_P padded) = Inr p \<and> matrix_tensor (map m_XNE padded) = Inr xne \<and>
        matrix_tensor (map m_ABROSS padded) = Inr abross \<and>
        matrix_tensor (map m_ACCRAD padded) = Inr accrad \<and>
        matrix_tensor (map m_TAU padded) = Inr tau \<and>
        original =
          [(''teff'', column_tensor (map m_teff padded)),
           (''gravity'', column_tensor (map m_gravity padded)),
           (''feh'', column_tensor (map (\<lambda>model. or_zero (m_feh model)) padded)),
           (''afe'', column_tensor (map (\<lambda>model. or_zero (m_afe model)) padded)),
           (''RHOX'', rhox), (''T'', t), (''P'', p), (''XNE'', xne), (''ABROSS'', abross),
           (''ACCRAD'', accrad), (''TAU'', tau)])"




text \<open>
  Example models with profiles of floats (every profile but \<^verbatim>\<open>T\<close> is \<open>xs\<close>), and three
  files of which the second cannot be read.
\<close>

definition sample_model :: "real \<Rightarrow> real list \<Rightarrow> real list \<Rightarrow> atm_model" where
  "sample_model teff t xs =
     \<lparr>m_teff = teff, m_gravity = 4, m_feh = None, m_afe = Some (2 / 5), m_RHOX = map PyFloat xs,
      m_T = map PyFloat t, m_P = map PyFloat xs, m_XNE = map PyFloat xs,
      m_ABROSS = map PyFloat xs, m_ACCRAD = map PyFloat xs, m_TAU = map PyFloat xs\<rparr>"


text \<open>
  The entries of an array as reals, and what an assignment stores in it. The loop
  invariant of \<open>tau_loop\<close> after the indices below \<open>n\<close>: every entry stored so far is the
  stored value of the entry before it plus the trapezoid \<open>tau_step\<close>.
\<close>

fun vals :: "ndarray \<Rightarrow> real list" where
  "vals (IntArray xs) = map of_int xs"
| "vals (FloatArray xs) = xs"

fun store :: "ndarray \<Rightarrow> real \<Rightarrow> real" where
  "store (IntArray xs) x = of_int (trunc x)"
| "store (FloatArray xs) x = x"

definition tau_step :: "ndarray \<Rightarrow> ndarray \<Rightarrow> nat \<Rightarrow> real" where
  "tau_step rhox abross i =
     (item abross i + item abross (i - 1)) / 2 * (item rhox i - item rhox (i - 1))"

definition tau_inv :: "ndarray \<Rightarrow> ndarray \<Rightarrow> nat \<Rightarrow> ndarray \<Rightarrow> bool" where
  "tau_inv rhox abross n tau \<longleftrightarrow>
     length (vals tau) = array_len rhox \<and> store tau = store rhox \<and> vals tau ! 0 = 0 \<and>
     (\<forall>i. 1 \<le> i \<and> i < n \<longrightarrow>
        vals tau ! i = store tau (vals tau ! (i - 1) + tau_step rhox abross i))"

text \<open>A model with the given \<^verbatim>\<open>RHOX\<close> and \<^verbatim>\<open>ABROSS\<close> profiles, for the examples.\<close>

definition profile_model :: "pynum list \<Rightarrow> pynum list \<Rightarrow> atm_model" where
  "profile_model rhox abross =
     \<lparr>m_teff = 5000, m_gravity = 4, m_feh = None, m_afe = None, m_RHOX = rhox, m_T = [],
      m_P = [], m_XNE = [], m_ABROSS = abross, m_ACCRAD = [], m_TAU = []\<rparr>"

section \<open>Properties\<close>

subsection \<open>Optical depth\<close>

lemma array_len_vals: "array_len a = length (vals a)"
  by (cases a) simp_all

lemma item_vals: "i < array_len a \<Longrightarrow> item a i = vals a ! i"
  by (cases a) simp_all

lemma vals_setitem: "vals (setitem a i x) = (vals a)[i := store a x]"
  by (cases a) (simp_all add: map_update)

lemma store_setitem: "store (setitem a i x) = store a"
  by (cases a) (simp_all add: fun_eq_iff)

lemma store_zeros_like: "store (zeros_like a) = store a"
  by (cases a) (simp_all add: fun_eq_iff)

lemma vals_zeros_like: "vals (zeros_like a) = replicate (array_len a) 0"
  by (cases a) simp_all

lemma array_len_np_array: "array_len (np_array xs) = length xs"
  by (simp add: np_array_def)

lemma item_np_array: "i < length xs \<Longrightarrow> item (np_array xs) i = to_real (xs ! i)"
proof (cases "xs \<noteq> [] \<and> list_all is_int xs")
  case True
  assume "i < length xs"
  with True have "is_int (xs ! i)" by (simp add: list_all_length)
  then have "of_int (int_of (xs ! i)) = to_real (xs ! i)" by (cases "xs ! i") simp_all
  with True \<open>i < length xs\<close> show ?thesis by (simp add: np_array_def)
next
  case False
  assume "i < length xs"
  with False show ?thesis by (auto simp: np_array_def)
qed

lemma map_to_real_tolist: "map to_real (tolist a) = vals a"
  by (cases a) (simp_all add: comp_def)

lemma length_tolist: "length (tolist a) = array_len a"
  by (cases a) simp_all

lemma tau_loop_append:
  "tau_loop rhox abross (xs @ ys) tau = bindE (tau_loop rhox abross xs tau) (tau_loop rhox abross ys)"
  by (induction xs arbitrary: tau) (auto simp: bindE_def Let_def)

lemma tau_loop_ok:
  "\<forall>i\<in>set idxs. i < array_len rhox \<and> i < array_len abross \<Longrightarrow>
   \<exists>tau'. tau_loop rhox abross idxs tau = Inr tau'"
proof (induction idxs arbitrary: tau)
  case Nil
  then show ?case by simp
next
  case (Cons i rest)
  let ?tau = "setitem tau i (item tau (i - 1) + tau_step rhox abross i)"
  from Cons.prems have "\<forall>i\<in>set rest. i < array_len rhox \<and> i < array_len abross" by simp
  from Cons.IH[OF this, of ?tau] obtain tau' where
    "tau_loop rhox abross rest ?tau = Inr tau'" by blast
  with Cons.prems show ?case by (simp add: Let_def tau_step_def)
qed

lemma tau_loop_fail:
  "\<exists>i\<in>set idxs. \<not> (i < array_len rhox \<and> i < array_len abross) \<Longrightarrow>
   tau_loop rhox abross idxs tau = Inl IndexError"
  by (induction idxs arbitrary: tau) (auto simp: Let_def)

lemma tau_loop_inv:
  "1 \<le> n \<Longrightarrow> n \<le> array_len rhox \<Longrightarrow> n \<le> array_len abross \<Longrightarrow>
   \<exists>tau. tau_loop rhox abross [1..<n] (zeros_like rhox) = Inr tau \<and> tau_inv rhox abross n tau"
proof (induction n)
  case 0
  then show ?case by simp
next
  case (Suc n)
  show ?case
  proof (cases "n = 0")
    case True
    from Suc.prems have "0 < array_len rhox" by linarith
    with True show ?thesis
      by (simp add: tau_inv_def vals_zeros_like store_zeros_like)
  next
    case False
    with Suc obtain tau where t: "tau_loop rhox abross [1..<n] (zeros_like rhox) = Inr tau"
      and inv: "tau_inv rhox abross n tau" by auto
    let ?x = "item tau (n - 1) + tau_step rhox abross n"
    let ?tau = "setitem tau n ?x"
    from False have upt: "[Suc 0..<Suc n] = [Suc 0..<n] @ [n]" by simp
    have run: "tau_loop rhox abross [1..<Suc n] (zeros_like rhox) = Inr ?tau"
      using Suc.prems t
      by (simp add: upt tau_loop_append bindE_def Let_def tau_step_def del: upt_Suc)
    have len: "length (vals tau) = array_len rhox" and st: "store tau = store rhox"
      using inv by (simp_all add: tau_inv_def)
    have it: "item tau (n - 1) = vals tau ! (n - 1)"
      using len Suc.prems by (intro item_vals) (simp add: array_len_vals)
    have "tau_inv rhox abross (Suc n) ?tau"
      unfolding tau_inv_def
    proof (intro conjI allI impI)
      show "length (vals ?tau) = array_len rhox" using len by (simp add: vals_setitem)
      show "store ?tau = store rhox" using st by (simp add: store_setitem)
      show "vals ?tau ! 0 = 0" using inv False by (simp add: tau_inv_def vals_setitem)
      fix i assume i: "1 \<le> i \<and> i < Suc n"
      show "vals ?tau ! i = store ?tau (vals ?tau ! (i - 1) + tau_step rhox abross i)"
      proof (cases "i = n")
        case True
        then show ?thesis using len Suc.prems False it
          by (simp add: vals_setitem store_setitem)
      next
        case False
        with i have "i < n" by simp
        then show ?thesis using inv i by (simp add: tau_inv_def vals_setitem store_setitem)
      qed
    qed
    with run show ?thesis by blast
  qed
qed

lemma tau_of_ok:
  assumes "length rhox \<le> length abross" "1 \<le> length rhox"
  shows "\<exists>tau. tau_of rhox abross = Inr (tolist tau) \<and>
           tau_inv (np_array rhox) (np_array abross) (length rhox) tau"
proof -
  from tau_loop_inv[of "length rhox" "np_array rhox" "np_array abross"] assms
  obtain tau where "tau_loop (np_array rhox) (np_array abross) [1..<length rhox]
      (zeros_like (np_array rhox)) = Inr tau"
    "tau_inv (np_array rhox) (np_array abross) (length rhox) tau"
    by (auto simp: array_len_np_array)
  then show ?thesis by (auto simp: tau_of_def Let_def array_len_np_array bindE_def)
qed

lemma tau_of_total:
  assumes "length rhox \<le> length abross \<or> length rhox \<le> 1"
  shows "\<exists>tau. tau_of rhox abross = Inr tau"
proof -
  from assms have "\<forall>i\<in>set [1..<length rhox].
      i < array_len (np_array rhox) \<and> i < array_len (np_array abross)"
    by (auto simp: array_len_np_array)
  from tau_loop_ok[OF this, of "zeros_like (np_array rhox)"] show ?thesis
    by (auto simp: tau_of_def Let_def array_len_np_array bindE_def)
qed

lemma tau_of_fails:
  assumes "2 \<le> length rhox" "length abross < length rhox"
  shows "tau_of rhox abross = Inl IndexError"
proof -
  let ?i = "max 1 (length abross)"
  have "?i \<in> set [1..<length rhox]" using assms by auto
  moreover have "\<not> (?i < array_len (np_array rhox) \<and> ?i < array_len (np_array abross))"
    by (auto simp: array_len_np_array)
  ultimately have "tau_loop (np_array rhox) (np_array abross) [1..<length rhox]
      (zeros_like (np_array rhox)) = Inl IndexError"
    by (intro tau_loop_fail) blast
  then show ?thesis by (simp add: tau_of_def Let_def array_len_np_array bindE_def)
qed



text \<open>
  Claim C5, as amended. \<^verbatim>\<open>calculate_tau\<close> has no length check of its own: it raises
  (an IndexError, from \<^verbatim>\<open>abross[i]\<close>) exactly when \<^verbatim>\<open>RHOX\<close> has at least two entries and
  \<^verbatim>\<open>ABROSS\<close> is shorter than \<^verbatim>\<open>RHOX\<close>; in every other case it returns, so a longer \<^verbatim>\<open>ABROSS\<close>
  is accepted and a \<^verbatim>\<open>RHOX\<close> of length 0 or 1 never fails.
\<close>

theorem calculate_tau_failure_cases:
  "(calculate_tau m = Inl IndexError) =
      (2 \<le> length (m_RHOX m) \<and> length (m_ABROSS m) < length (m_RHOX m)) \<and>
   (\<exists>tau. calculate_tau m = Inr (m\<lparr>m_TAU := tau\<rparr>)) =
      (length (m_RHOX m) \<le> 1 \<or> length (m_RHOX m) \<le> length (m_ABROSS m))"
proof (cases "2 \<le> length (m_RHOX m) \<and> length (m_ABROSS m) < length (m_RHOX m)")
  case True
  then have "tau_of (m_RHOX m) (m_ABROSS m) = Inl IndexError" by (simp add: tau_of_fails)
  with True show ?thesis by (auto simp: calculate_tau_def bindE_def)
next
  case False
  then have "length (m_RHOX m) \<le> length (m_ABROSS m) \<or> length (m_RHOX m) \<le> 1" by auto
  from tau_of_total[OF this] obtain tau where "tau_of (m_RHOX m) (m_ABROSS m) = Inr tau" by blast
  with False show ?thesis by (auto simp: calculate_tau_def bindE_def)
qed

text \<open>
  The claim as stated (a failure whenever the lengths differ) is false for
  \<open>rhox = [0.0, 1.0]\<close> and \<open>abross = [1.0, 2.0, 3.0]\<close>: the lengths differ and \<open>[0.0, 1.5]\<close>
  is stored.
\<close>

theorem calculate_tau_mismatch_counterexample:
  "length (m_RHOX (profile_model [PyFloat 0, PyFloat 1] [PyFloat 1, PyFloat 2, PyFloat 3])) \<noteq>
   length (m_ABROSS (profile_model [PyFloat 0, PyFloat 1] [PyFloat 1, PyFloat 2, PyFloat 3])) \<and>
   calculate_tau (profile_model [PyFloat 0, PyFloat 1] [PyFloat 1, PyFloat 2, PyFloat 3]) =
     Inr ((profile_model [PyFloat 0, PyFloat 1] [PyFloat 1, PyFloat 2, PyFloat 3])
            \<lparr>m_TAU := [PyFloat 0, PyFloat (3 / 2)]\<rparr>)"
  by (simp add: profile_model_def calculate_tau_def bindE_def tau_of_def np_array_def upt_rec Let_def)



text \<open>
  Claim C4 does not hold of the code: \<^verbatim>\<open>tau = np.zeros_like(rhox)\<close> has the dtype of
  \<^verbatim>\<open>rhox\<close>, so for a \<^verbatim>\<open>RHOX\<close> profile of Python ints \<^verbatim>\<open>tau\<close> is an int64 array and each
  \<^verbatim>\<open>tau[i] = tau[i-1] + delta_tau\<close> stores the float truncated. For \<open>rhox = [1, 2]\<close> and
  \<open>abross = [1, 2]\<close> the increment is \<open>(2 + 1) / 2 * (2 - 1) = 1.5\<close> and \<open>[0, 1]\<close> is stored,
  where the claim has \<open>tau[1] = 1.5\<close>.
\<close>

theorem calculate_tau_int_profile:
  "calculate_tau (profile_model [PyInt 1, PyInt 2] [PyInt 1, PyInt 2]) =
     Inr ((profile_model [PyInt 1, PyInt 2] [PyInt 1, PyInt 2])\<lparr>m_TAU := [PyInt 0, PyInt 1]\<rparr>) \<and>
   to_real (PyInt 1) \<noteq>
     to_real (PyInt 0) +
       (to_real (PyInt 2) + to_real (PyInt 1)) / 2 * (to_real (PyInt 2) - to_real (PyInt 1))"
  by (simp add: profile_model_def calculate_tau_def bindE_def tau_of_def np_array_def upt_rec
      Let_def trunc_def)

text \<open>
  What the code stores on profiles of equal length: the claim's recurrence when \<^verbatim>\<open>RHOX\<close>
  has a float among its entries (\<^verbatim>\<open>tau\<close> is then a float64 array), and its truncation
  toward zero at every step when \<^verbatim>\<open>RHOX\<close> is a list of ints; \<^verbatim>\<open>ABROSS\<close> may hold ints or
  floats. The claim's example holds for ints and for floats.
\<close>

lemma calculate_tau_stored:
  assumes "length (m_RHOX m) = length (m_ABROSS m)" "1 \<le> length (m_RHOX m)"
  shows "\<exists>tau. calculate_tau m = Inr (m\<lparr>m_TAU := tau\<rparr>) \<and> length tau = length (m_RHOX m) \<and>
         to_real (tau ! 0) = 0 \<and>
         (\<forall>i. 1 \<le> i \<and> i < length (m_RHOX m) \<longrightarrow>
            to_real (tau ! i) =
              (let x = to_real (tau ! (i - 1)) +
                     (to_real (m_ABROSS m ! i) + to_real (m_ABROSS m ! (i - 1))) / 2 *
                     (to_real (m_RHOX m ! i) - to_real (m_RHOX m ! (i - 1)))
               in if list_all is_int (m_RHOX m) then of_int (trunc x) else x))"
proof -
  let ?rhox = "np_array (m_RHOX m)" and ?abross = "np_array (m_ABROSS m)"
  let ?n = "length (m_RHOX m)"
  let ?st = "\<lambda>x. if list_all is_int (m_RHOX m) then of_int (trunc x) else x"
  from assms(1,2) obtain tau where t: "tau_of (m_RHOX m) (m_ABROSS m) = Inr (tolist tau)"
    and inv: "tau_inv ?rhox ?abross ?n tau"
    using tau_of_ok[of "m_RHOX m" "m_ABROSS m"] by auto
  have len: "length (vals tau) = ?n" using inv by (simp add: tau_inv_def array_len_np_array)
  from assms(2) have "m_RHOX m \<noteq> []" by auto
  then have "store ?rhox = ?st" by (simp add: np_array_def fun_eq_iff)
  with inv have st: "store tau = ?st" by (simp add: tau_inv_def)
  have v: "to_real (tolist tau ! i) = vals tau ! i" if "i < ?n" for i
    using that len map_to_real_tolist[of tau] by (metis length_map nth_map)
  have lt: "length (tolist tau) = ?n" using len by (simp add: length_tolist array_len_vals)
  have step: "to_real (tolist tau ! i) =
      (let x = to_real (tolist tau ! (i - 1)) +
             (to_real (m_ABROSS m ! i) + to_real (m_ABROSS m ! (i - 1))) / 2 *
             (to_real (m_RHOX m ! i) - to_real (m_RHOX m ! (i - 1)))
       in if list_all is_int (m_RHOX m) then of_int (trunc x) else x)"
    if i: "1 \<le> i \<and> i < ?n" for i
  proof -
    have "vals tau ! i = ?st (vals tau ! (i - 1) + tau_step ?rhox ?abross i)"
      using inv i st by (simp add: tau_inv_def)
    moreover have "item ?abross i = to_real (m_ABROSS m ! i)"
      "item ?abross (i - 1) = to_real (m_ABROSS m ! (i - 1))"
      "item ?rhox i = to_real (m_RHOX m ! i)" "item ?rhox (i - 1) = to_real (m_RHOX m ! (i - 1))"
      using assms(1) i by (simp_all add: item_np_array less_imp_diff_less)
    ultimately show ?thesis using v[of i] v[of "i - 1"] i
      by (simp add: tau_step_def less_imp_diff_less Let_def)
  qed
  have "calculate_tau m = Inr (m\<lparr>m_TAU := tolist tau\<rparr>)"
    using t by (simp add: calculate_tau_def bindE_def)
  moreover have "to_real (tolist tau ! 0) = 0"
  proof -
    have "0 < ?n" using assms(2) by linarith
    from v[OF this] inv show ?thesis by (simp add: tau_inv_def)
  qed
  ultimately show ?thesis using lt step by blast
qed

lemma calculate_tau_example:
  "calculate_tau (profile_model [PyInt 0, PyInt 1, PyInt 2] [PyInt 2, PyInt 4, PyInt 6]) =
     Inr ((profile_model [PyInt 0, PyInt 1, PyInt 2] [PyInt 2, PyInt 4, PyInt 6])
            \<lparr>m_TAU := [PyInt 0, PyInt 3, PyInt 8]\<rparr>)"
  "calculate_tau (profile_model [PyFloat 0, PyFloat 1, PyFloat 2] [PyFloat 2, PyFloat 4, PyFloat 6]) =
     Inr ((profile_model [PyFloat 0, PyFloat 1, PyFloat 2] [PyFloat 2, PyFloat 4, PyFloat 6])
            \<lparr>m_TAU := [PyFloat 0, PyFloat 3, PyFloat 8]\<rparr>)"
  by (simp_all add: profile_model_def calculate_tau_def bindE_def tau_of_def np_array_def upt_rec
      Let_def trunc_def)

subsection \<open>Padding\<close>

lemma pad_general:
  assumes "values \<noteq> []" "1 \<le> L"
  shows "\<exists>r. pad_sequence values L = Inr r \<and> length r = nat L \<and>
     (L \<le> int (length values) \<longrightarrow> r = take (nat L) values) \<and>
     (int (length values) < L \<longrightarrow> r = values @ replicate (nat L - length values) (last values))"
proof -
  have "nat (int (length values) - 1) = length values - 1" by linarith
  with assms show ?thesis
    by (auto simp: pad_sequence_def py_index_def bindE_def slice_to_def Let_def last_conv_nth nat_diff_distrib)
qed

text \<open>
  Claim C7. For a non-empty sequence and a target length \<open>L \<ge> 1\<close>, \<^verbatim>\<open>pad_sequence\<close>
  returns exactly \<open>L\<close> elements: the first \<open>L\<close> elements of the input when the input has
  at least \<open>L\<close>, and otherwise the input followed by copies of its last element.
  \<^verbatim>\<open>pad_sequence([1,2,3], 5)\<close> is \<open>[1,2,3,3,3]\<close> and \<^verbatim>\<open>pad_sequence([1,2,3,4,5,6], 4)\<close> is
  \<open>[1,2,3,4]\<close>.
\<close>

theorem pad_sequence_spec:
  "(values \<noteq> [] \<and> 1 \<le> L \<longrightarrow>
      (\<exists>r. pad_sequence values L = Inr r \<and> length r = nat L \<and>
         (L \<le> int (length values) \<longrightarrow> r = take (nat L) values) \<and>
         (int (length values) < L \<longrightarrow>
            r = values @ replicate (nat L - length values) (last values)))) \<and>
   pad_sequence [1, 2, 3 :: real] 5 = Inr [1, 2, 3, 3, 3] \<and>
   pad_sequence [1, 2, 3, 4, 5, 6 :: real] 4 = Inr [1, 2, 3, 4]"
proof (intro conjI impI)
  assume "values \<noteq> [] \<and> 1 \<le> L"
  then show "\<exists>r. pad_sequence values L = Inr r \<and> length r = nat L \<and>
         (L \<le> int (length values) \<longrightarrow> r = take (nat L) values) \<and>
         (int (length values) < L \<longrightarrow>
            r = values @ replicate (nat L - length values) (last values))"
    using pad_general[of "values" L] by simp
qed (simp_all add: pad_sequence_def py_index_def bindE_def slice_to_def Let_def numeral_eq_Suc)

theorem pad_sequence_spec_witness:
  "[7 :: real, 9] \<noteq> [] \<and> (1 :: int) \<le> 4 \<and> pad_sequence [7 :: real, 9] 4 = Inr [7, 9, 9, 9]"
  using pad_sequence_spec[of "[7 :: real, 9]" 4] by (auto simp: numeral_eq_Suc)

text \<open>
  Claim C8. Padding the empty sequence to a target length \<open>L > 0\<close> raises (Python's
  IndexError, from \<^verbatim>\<open>values[-1]\<close>): no padded result is returned.
\<close>

theorem pad_sequence_empty_fails:
  "0 < L \<Longrightarrow> pad_sequence [] L = Inl IndexError"
  by (simp add: pad_sequence_def py_index_def bindE_def)

theorem pad_sequence_empty_fails_witness:
  "(0 :: int) < 80 \<and> pad_sequence ([] :: real list) 80 = Inl IndexError"
  using pad_sequence_empty_fails[of 80, where ?'a = real] by simp

subsection \<open>Normalization\<close>

lemma tmap_tmap: "tmap f (tmap g t) = tmap (f \<circ> g) t"
  by (cases t) simp_all

lemma elems_tmap: "elems (tmap f t) = map f (elems t)"
  by (cases t) (simp_all add: map_concat)

lemma tmap_cong_elems: "(\<And>x. x \<in> set (elems t) \<Longrightarrow> f x = g x) \<Longrightarrow> tmap f t = tmap g t"
  by (cases t) auto

lemma tmap_ident: "tmap (\<lambda>x. x) t = t"
  by (cases t) simp_all


lemma ndim_tmap: "ndim (tmap f t) = ndim t"
  by (cases t) simp_all

lemma fsub_Fin: "fsub (Fin x) (Fin y) = Fin (x - y)"
  by (simp add: fsub_def)


lemma normalize_scalar:
  assumes "norm_params name = Some p" "p_min p = T0 mn" "p_max p = T0 mx"
  shows "normalize_feature norm_params name data = Inr (tmap (norm_val p mn mx) data)"
  using assms
  by (auto simp: normalize_feature_def bindE_def tmap_tmap norm_val_def intro!: tmap_cong_elems)





lemma fmin_cases: "fmin y x = NaN \<and> (x = NaN \<or> y = NaN) \<or>
    x \<noteq> NaN \<and> y \<noteq> NaN \<and> (fmin y x = x \<and> fle x y \<or> fmin y x = y \<and> fle y x)"
  by (cases x; cases y) (auto simp: min_def)

lemma fmax_cases: "fmax y x = NaN \<and> (x = NaN \<or> y = NaN) \<or>
    x \<noteq> NaN \<and> y \<noteq> NaN \<and> (fmax y x = x \<and> fle y x \<or> fmax y x = y \<and> fle x y)"
  by (cases x; cases y) (auto simp: max_def)

lemma fle_trans: "fle a b \<Longrightarrow> fle b c \<Longrightarrow> fle a c"
  by (cases a; cases b; cases c) auto

lemma fle_refl: "x \<noteq> NaN \<Longrightarrow> fle x x"
  by (cases x) auto

lemma fle_antisym: "fle a b \<Longrightarrow> fle b a \<Longrightarrow> a = b"
  by (cases a; cases b) auto

lemma fold_fmin_min: "is_min_of (fold fmin xs x) (x # xs)"
proof (induction xs arbitrary: x)
  case Nil
  show ?case by (simp add: is_min_of_def fle_refl)
next
  case (Cons y ys)
  let ?m = "fold fmin ys (fmin y x)"
  have ih: "is_min_of ?m (fmin y x # ys)" by (rule Cons.IH)
  from fmin_cases[of y x] consider
    (nan) "fmin y x = NaN" "x = NaN \<or> y = NaN"
  | (left) "x \<noteq> NaN" "y \<noteq> NaN" "fmin y x = x" "fle x y"
  | (right) "x \<noteq> NaN" "y \<noteq> NaN" "fmin y x = y" "fle y x"
    by blast
  then show ?case
  proof cases
    case nan
    with ih show ?thesis by (auto simp: is_min_of_def)
  next
    case left
    with ih show ?thesis by (auto simp: is_min_of_def intro: fle_trans)
  next
    case right
    with ih show ?thesis by (auto simp: is_min_of_def intro: fle_trans)
  qed
qed

lemma fold_fmax_max: "is_max_of (fold fmax xs x) (x # xs)"
proof (induction xs arbitrary: x)
  case Nil
  show ?case by (simp add: is_max_of_def fle_refl)
next
  case (Cons y ys)
  let ?m = "fold fmax ys (fmax y x)"
  have ih: "is_max_of ?m (fmax y x # ys)" by (rule Cons.IH)
  from fmax_cases[of y x] consider
    (nan) "fmax y x = NaN" "x = NaN \<or> y = NaN"
  | (left) "x \<noteq> NaN" "y \<noteq> NaN" "fmax y x = x" "fle y x"
  | (right) "x \<noteq> NaN" "y \<noteq> NaN" "fmax y x = y" "fle x y"
    by blast
  then show ?case
  proof cases
    case nan
    with ih show ?thesis by (auto simp: is_max_of_def)
  next
    case left
    with ih show ?thesis by (auto simp: is_max_of_def intro: fle_trans)
  next
    case right
    with ih show ?thesis by (auto simp: is_max_of_def intro: fle_trans)
  qed
qed

lemma is_min_of_unique: "is_min_of m xs \<Longrightarrow> is_min_of m' xs \<Longrightarrow> m = m'"
  by (auto simp: is_min_of_def intro: fle_antisym split: if_splits)

lemma is_max_of_unique: "is_max_of m xs \<Longrightarrow> is_max_of m' xs \<Longrightarrow> m = m'"
  by (auto simp: is_max_of_def intro: fle_antisym split: if_splits)

lemma finite_bounds_entries:
  assumes "is_min_of (Fin a) xs" "is_max_of (Fin b) xs"
  shows "Fin a \<in> set xs \<and> Fin b \<in> set xs \<and> (\<forall>y\<in>set xs. \<exists>r. y = Fin r \<and> a \<le> r \<and> r \<le> b)"
proof -
  from assms have n: "NaN \<notin> set xs" by (auto simp: is_min_of_def split: if_splits)
  with assms have m: "Fin a \<in> set xs" "Fin b \<in> set xs"
    "\<forall>y\<in>set xs. fle (Fin a) y" "\<forall>y\<in>set xs. fle y (Fin b)"
    by (auto simp: is_min_of_def is_max_of_def)
  have "\<exists>r. y = Fin r \<and> a \<le> r \<and> r \<le> b" if "y \<in> set xs" for y
    using m(3,4) that by (cases y) auto
  with m show ?thesis by blast
qed

lemma reduce_all_fmin:
  "reduce_all fmin t = Inr m \<Longrightarrow> \<exists>mn. m = T0 mn \<and> is_min_of mn (elems t)"
  by (auto simp: reduce_all_def fold_fmin_min split: list.splits)

lemma reduce_all_fmax:
  "reduce_all fmax t = Inr m \<Longrightarrow> \<exists>mx. m = T0 mx \<and> is_max_of mx (elems t)"
  by (auto simp: reduce_all_def fold_fmax_max split: list.splits)

lemma norm_stats_scalar:
  assumes "norm_stats name data = Inr p" "ndim data \<le> 2"
  shows "\<exists>mn mx. p = \<lparr>p_min = T0 mn, p_max = T0 mx, log_scale = (name \<in> set log_params)\<rparr> \<and>
     is_min_of mn (map (transformed name) (elems data)) \<and>
     is_max_of mx (map (transformed name) (elems data))"
proof -
  let ?t = "tmap (transformed name) data"
  have td: "(if name \<in> set log_params then tmap (\<lambda>x. flog10 (fadd x (Fin eps30))) data else data) = ?t"
    by (auto simp: transformed_def[abs_def] tmap_ident)
  have d: "ndim ?t \<le> 2" using assms(2) by (simp add: ndim_tmap)
  from assms(1) d obtain m1 m2 where m: "reduce_all fmin ?t = Inr m1" "reduce_all fmax ?t = Inr m2"
    "p = \<lparr>p_min = m1, p_max = m2, log_scale = (name \<in> set log_params)\<rparr>"
    unfolding norm_stats_def Let_def td by (auto simp: bindE_def split: sum.splits)
  from reduce_all_fmin[OF m(1)] reduce_all_fmax[OF m(2)] m(3) show ?thesis
    by (auto simp: elems_tmap)
qed

lemma setup_normalization_other:
  "setup_normalization items ps0 = Inr ps \<Longrightarrow> name \<notin> fst ` set items \<Longrightarrow> ps name = ps0 name"
proof (induction items arbitrary: ps0)
  case Nil
  then show ?case by simp
next
  case (Cons it items)
  obtain n d where it: "it = (n, d)" by (cases it)
  from Cons.prems(1) it obtain p where p: "norm_stats n d = Inr p"
    and rest: "setup_normalization items (ps0(n \<mapsto> p)) = Inr ps"
    by (auto simp: bindE_def split: sum.splits)
  from Cons.prems(2) it have "name \<notin> fst ` set items" "name \<noteq> n" by auto
  from Cons.IH[OF rest this(1)] this(2) show ?case by simp
qed

lemma setup_normalization_lookup:
  "setup_normalization items ps0 = Inr ps \<Longrightarrow> distinct (map fst items) \<Longrightarrow>
   (name, data) \<in> set items \<Longrightarrow> \<exists>p. norm_stats name data = Inr p \<and> ps name = Some p"
proof (induction items arbitrary: ps0)
  case Nil
  then show ?case by simp
next
  case (Cons it items)
  obtain n d where it: "it = (n, d)" by (cases it)
  from Cons.prems(1) it obtain p where p: "norm_stats n d = Inr p"
    and rest: "setup_normalization items (ps0(n \<mapsto> p)) = Inr ps"
    by (auto simp: bindE_def split: sum.splits)
  show ?case
  proof (cases "(name, data) = (n, d)")
    case True
    from Cons.prems(2) it have "n \<notin> fst ` set items" by auto
    from setup_normalization_other[OF rest this] True p show ?thesis by simp
  next
    case False
    with Cons.prems(3) it have "(name, data) \<in> set items" by auto
    from Cons.IH[OF rest _ this] Cons.prems(2) show ?thesis by simp
  qed
qed


lemma norm_val_range:
  assumes "mn \<le> t" "t \<le> mx" "mx \<noteq> mn"
  shows "- 1 \<le> 2 * (t - mn) / (mx - mn) - 1 \<and> 2 * (t - mn) / (mx - mn) - 1 \<le> (1 :: real)"
proof -
  from assms have w: "0 < mx - mn" by simp
  have "0 \<le> (t - mn) / (mx - mn)" using assms w by simp
  moreover have "(t - mn) / (mx - mn) \<le> 1" using assms w by (simp add: divide_le_eq)
  moreover have "2 * (t - mn) / (mx - mn) = 2 * ((t - mn) / (mx - mn))" by simp
  ultimately show ?thesis by linarith
qed

text \<open>The range of \<open>normalize_feature\<close> on the data that finite scalar bounds were fitted on.\<close>

lemma normalize_range_finite_bounds:
  assumes "norm_stats name data = Inr p" and "ndim data \<le> 2"
    and "norm_params name = Some p"
    and "p_min p = T0 (Fin mn)" and "p_max p = T0 (Fin mx)" and "mx \<noteq> mn"
  shows "(\<exists>nd. normalize_feature norm_params name data = Inr nd \<and>
            (\<forall>y\<in>set (elems nd). \<exists>r. y = Fin r \<and> - 1 \<le> r \<and> r \<le> 1)) \<and>
         (\<forall>v\<in>set (elems data). \<exists>r. normalize_feature norm_params name (T0 v) = Inr (T0 (Fin r)) \<and>
            - 1 \<le> r \<and> r \<le> 1) \<and>
         (\<exists>v\<in>set (elems data). log_transform (log_scale p) v = Fin mn) \<and>
         (\<exists>v\<in>set (elems data). log_transform (log_scale p) v = Fin mx) \<and>
         (\<forall>v. log_transform (log_scale p) v = Fin mn \<longrightarrow>
            normalize_feature norm_params name (T0 v) = Inr (T0 (Fin (- 1)))) \<and>
         (\<forall>v. log_transform (log_scale p) v = Fin mx \<longrightarrow>
            normalize_feature norm_params name (T0 v) = Inr (T0 (Fin 1)))"
proof -
  from norm_stats_scalar[OF assms(1,2)] assms(4,5)
  have ls: "log_scale p = (name \<in> set log_params)"
    and lo: "is_min_of (Fin mn) (map (transformed name) (elems data))"
    and hi: "is_max_of (Fin mx) (map (transformed name) (elems data))"
    by auto
  from finite_bounds_entries[OF lo hi]
  have at: "Fin mn \<in> set (map (transformed name) (elems data))"
           "Fin mx \<in> set (map (transformed name) (elems data))"
    and bd: "\<forall>y\<in>set (map (transformed name) (elems data)). \<exists>r. y = Fin r \<and> mn \<le> r \<and> r \<le> mx"
    by blast+
  have tr: "transformed name v = log_transform (log_scale p) v" for v
    by (simp add: transformed_def ls)
  have nv: "norm_val p (Fin mn) (Fin mx) v = Fin (2 * (t - mn) / (mx - mn) - 1)"
    if "log_transform (log_scale p) v = Fin t" for v t
    using that assms(6) by (simp add: norm_val_def fsub_Fin)
  have rng: "\<exists>r. norm_val p (Fin mn) (Fin mx) v = Fin r \<and> - 1 \<le> r \<and> r \<le> 1"
    if v: "v \<in> set (elems data)" for v
  proof -
    from bd v obtain t where t1: "transformed name v = Fin t" "mn \<le> t" "t \<le> mx" by auto
    then have t: "log_transform (log_scale p) v = Fin t" by (simp add: tr)
    from nv[OF t] norm_val_range[OF t1(2,3) assms(6)] show ?thesis by simp
  qed
  have n: "normalize_feature norm_params name x = Inr (tmap (norm_val p (Fin mn) (Fin mx)) x)" for x
    using assms(3-5) by (rule normalize_scalar)
  have "\<forall>y\<in>set (elems (tmap (norm_val p (Fin mn) (Fin mx)) data)). \<exists>r. y = Fin r \<and> - 1 \<le> r \<and> r \<le> 1"
    using rng by (auto simp: elems_tmap)
  moreover have "\<forall>v\<in>set (elems data). \<exists>r. normalize_feature norm_params name (T0 v) = Inr (T0 (Fin r)) \<and>
            - 1 \<le> r \<and> r \<le> 1"
    using rng by (simp add: n)
  moreover have "\<exists>v\<in>set (elems data). log_transform (log_scale p) v = Fin mn"
    using at(1) by (auto simp: tr)
  moreover have "\<exists>v\<in>set (elems data). log_transform (log_scale p) v = Fin mx"
    using at(2) by (auto simp: tr)
  moreover have "normalize_feature norm_params name (T0 v) = Inr (T0 (Fin (- 1)))"
    if "log_transform (log_scale p) v = Fin mn" for v
    using nv[OF that] by (simp add: n)
  moreover have "normalize_feature norm_params name (T0 v) = Inr (T0 (Fin 1))"
    if "log_transform (log_scale p) v = Fin mx" for v
  proof -
    have g: "2 * w / w - 1 = 1" if "w \<noteq> 0" for w :: real using that by simp
    from assms(6) have "mx - mn \<noteq> 0" by simp
    from g[OF this] nv[OF that] show ?thesis by (simp only: n tmap.simps)
  qed
  ultimately show ?thesis by (simp add: n)
qed

lemma denormalize_columns_fails:
  "(i, n) \<in> set cols \<Longrightarrow> isl (select_last outputs i) \<Longrightarrow>
   isl (denormalize_columns ps outputs cols result)"
proof (induction cols arbitrary: result)
  case Nil
  then show ?case by simp
next
  case (Cons c cols)
  obtain j m where c: "c = (j, m)" by (cases c)
  show ?case
  proof (cases "(i, n) = (j, m)")
    case True
    with Cons.prems c show ?thesis by (auto simp: bindE_def split: sum.splits)
  next
    case False
    with Cons.prems c have "(i, n) \<in> set cols" by auto
    from Cons.IH[OF this Cons.prems(2)] c show ?thesis
      by (auto simp: bindE_def split: sum.splits)
  qed
qed

text \<open>
  Claim C3 does not hold of the code: \<^verbatim>\<open>inverse_transform_outputs\<close> loops over seven
  column names (\<^verbatim>\<open>TAU\<close> is the seventh), so on a tensor with 6 channels the slice
  \<^verbatim>\<open>outputs[:, :, 6]\<close> raises IndexError after the six channels have been denormalized.
  Here on the tensor of zeros of shape \<open>(1, 1, 6)\<close>, with bounds present for every name.
\<close>

theorem inverse_transform_outputs_six_channels:
  "inverse_transform_outputs
     (\<lambda>name. Some \<lparr>p_min = T0 (Fin 0), p_max = T0 (Fin 1), log_scale = False\<rparr>)
     (T3 1 6 [[[Fin 0, Fin 0, Fin 0, Fin 0, Fin 0, Fin 0]]]) = Inl IndexError"
  by (simp add: inverse_transform_outputs_def columns_def denormalize_def bindE_def fsub_def)

text \<open>
  The same for every tensor of shape \<open>(batch, depth, 6)\<close>, also with \<open>batch\<close> or \<open>depth\<close>
  0, and any dictionary of bounds: the call raises.
\<close>

lemma inverse_transform_outputs_six_fails:
  "isl (inverse_transform_outputs ps (T3 d 6 ms))"
proof -
  have "(6, ''TAU'') \<in> set (enumerate 0 columns)" by (simp add: columns_def)
  moreover have "isl (select_last (T3 d 6 ms) 6)" by simp
  ultimately show ?thesis
    unfolding inverse_transform_outputs_def by (simp add: denormalize_columns_fails)
qed

text \<open>With a seventh channel, for \<^verbatim>\<open>TAU\<close>, the call returns.\<close>

lemma inverse_transform_outputs_seven_channels:
  "\<exists>result. inverse_transform_outputs
     (\<lambda>name. Some \<lparr>p_min = T0 (Fin 0), p_max = T0 (Fin 1), log_scale = False\<rparr>)
     (T3 1 7 [[[Fin 0, Fin 0, Fin 0, Fin 0, Fin 0, Fin 0, Fin 0]]]) = Inr result \<and>
     result ''TAU'' = Some (Some (T2 1 [[Fin (1 / 2)]]))"
  by (simp add: inverse_transform_outputs_def columns_def denormalize_def bindE_def fsub_def)

subsection \<open>The bundle and its statistics\<close>


lemma bindE_Inr: "bindE m f = Inr y \<Longrightarrow> \<exists>x. m = Inr x \<and> f x = Inr y"
  by (cases m) (simp_all add: bindE_def)

lemma seqE_map_Inr:
  "seqE (map f xs) = Inr ys \<Longrightarrow> list_all2 (\<lambda>x y. f x = Inr y) xs ys"
proof (induction xs arbitrary: ys)
  case Nil
  then show ?case by simp
next
  case (Cons x xs)
  from Cons.prems obtain y zs where y: "f x = Inr y"
    and zs: "seqE (map f xs) = Inr zs" "ys = y # zs"
    by (auto dest!: bindE_Inr)
  with Cons.IH[OF zs(1)] y show ?case by simp
qed


lemma matrix_tensor_Inr:
  "matrix_tensor rows = Inr t \<Longrightarrow>
   t = (if rows = [] then T1 []
        else T2 (length (hd rows)) (map (map (\<lambda>x. Fin (to_real x))) rows))"
  by (auto simp: matrix_tensor_def split: if_splits)

lemma matrix_tensor_dim: "matrix_tensor rows = Inr t \<Longrightarrow> ndim t \<le> 2"
  by (auto simp: matrix_tensor_def split: if_splits)

lemma prepare_data_Inr:
  assumes "prepare_data models L = Inr original"
  shows "\<exists>padded. list_all2 (\<lambda>m m'. pad_profiles L m = Inr m') models padded \<and>
           bundle_of padded original"
proof -
  from assms obtain padded where s: "seqE (map (pad_profiles L) models) = Inr padded"
    and r: "bundle_of padded original"
    unfolding prepare_data_def bundle_of_def Let_def
    by (auto dest!: bindE_Inr)
  from seqE_map_Inr[OF s] r show ?thesis by blast
qed

lemma bundle_names:
  "bundle_of padded original \<Longrightarrow>
   map fst original = [''teff'', ''gravity'', ''feh'', ''afe'', ''RHOX'', ''T'', ''P'', ''XNE'',
     ''ABROSS'', ''ACCRAD'', ''TAU'']"
  by (auto simp: bundle_of_def)

lemma bundle_dims:
  "bundle_of padded original \<Longrightarrow> (name, data) \<in> set original \<Longrightarrow> ndim data \<le> 2"
  by (auto simp: bundle_of_def column_tensor_def dest: matrix_tensor_dim)

text \<open>
  Claim C1, as amended. Every tensor of the original bundle has at most 2 dimensions, so
  \<^verbatim>\<open>setup_normalization\<close> takes its branch for 1-D or 2-D data: for every feature, scalar
  or sequence, min and max are single 0-dimensional bounds, the minimum and the maximum
  of the (log-transformed) entries over all samples and all depth points together (NaN
  when an entry is NaN).
\<close>

theorem setup_normalization_bundle_bounds:
  assumes "prepare_data models max_depth_points = Inr original"
    and "setup_normalization original Map.empty = Inr norm_params"
    and "(name, data) \<in> set original"
  shows "ndim data \<le> 2 \<and>
     (\<exists>mn mx. norm_params name =
          Some \<lparr>p_min = T0 mn, p_max = T0 mx, log_scale = (name \<in> set log_params)\<rparr> \<and>
        is_min_of mn (map (log_transform (name \<in> set log_params)) (elems data)) \<and>
        is_max_of mx (map (log_transform (name \<in> set log_params)) (elems data)))"
proof -
  from prepare_data_Inr[OF assms(1)] obtain padded where b: "bundle_of padded original" by blast
  from bundle_dims[OF b assms(3)] have d: "ndim data \<le> 2" .
  from bundle_names[OF b] have "distinct (map fst original)" by simp
  from setup_normalization_lookup[OF assms(2) this assms(3)] obtain p where
    p: "norm_stats name data = Inr p" "norm_params name = Some p" by blast
  have tr: "transformed name = log_transform (name \<in> set log_params)"
    by (rule ext) (simp add: transformed_def)
  from norm_stats_scalar[OF p(1) d] p(2) d show ?thesis unfolding tr by auto
qed

lemma example_prepare:
  "prepare_data [sample_model 5000 [1, 5] [1, 2], sample_model 6000 [3, 2] [3, 4]] 2 =
   Inr [(''teff'', T2 1 [[Fin 5000], [Fin 6000]]), (''gravity'', T2 1 [[Fin 4], [Fin 4]]),
        (''feh'', T2 1 [[Fin 0], [Fin 0]]), (''afe'', T2 1 [[Fin (2 / 5)], [Fin (2 / 5)]]),
        (''RHOX'', T2 2 [[Fin 1, Fin 2], [Fin 3, Fin 4]]),
        (''T'', T2 2 [[Fin 1, Fin 5], [Fin 3, Fin 2]]),
        (''P'', T2 2 [[Fin 1, Fin 2], [Fin 3, Fin 4]]),
        (''XNE'', T2 2 [[Fin 1, Fin 2], [Fin 3, Fin 4]]),
        (''ABROSS'', T2 2 [[Fin 1, Fin 2], [Fin 3, Fin 4]]),
        (''ACCRAD'', T2 2 [[Fin 1, Fin 2], [Fin 3, Fin 4]]),
        (''TAU'', T2 2 [[Fin 1, Fin 2], [Fin 3, Fin 4]])]"
  by (simp add: prepare_data_def pad_profiles_def pad_sequence_def slice_to_def bindE_def
      sample_model_def matrix_tensor_def same_length_def column_tensor_def or_zero_def Let_def)

lemma norm_stats_Inr:
  "elems data \<noteq> [] \<Longrightarrow> ndim data \<le> 2 \<Longrightarrow> \<exists>p. norm_stats name data = Inr p"
  by (cases data) (auto simp: norm_stats_def reduce_all_def bindE_def Let_def split: list.splits)

lemma setup_normalization_Inr:
  "list_all (\<lambda>(n, d). elems d \<noteq> [] \<and> ndim d \<le> 2) items \<Longrightarrow>
   \<exists>ps. setup_normalization items ps0 = Inr ps"
proof (induction items arbitrary: ps0)
  case Nil
  then show ?case by simp
next
  case (Cons it items)
  obtain n d where it: "it = (n, d)" by (cases it)
  with Cons.prems obtain p where p: "norm_stats n d = Inr p"
    using norm_stats_Inr[of d n] by auto
  from Cons.prems have "list_all (\<lambda>(n, d). elems d \<noteq> [] \<and> ndim d \<le> 2) items" by simp
  from Cons.IH[OF this, of "ps0(n \<mapsto> p)"] obtain ps where
    "setup_normalization items (ps0(n \<mapsto> p)) = Inr ps" by blast
  then have "setup_normalization (it # items) ps0 = Inr ps"
    unfolding it by (simp only: setup_normalization.simps p bindE_def sum.case)
  then show ?case by blast
qed

lemma example_setup:
  "\<exists>ps. setup_normalization
     [(''teff'', T2 1 [[Fin 5000], [Fin 6000]]), (''gravity'', T2 1 [[Fin 4], [Fin 4]]),
      (''feh'', T2 1 [[Fin 0], [Fin 0]]), (''afe'', T2 1 [[Fin (2 / 5)], [Fin (2 / 5)]]),
      (''RHOX'', T2 2 [[Fin 1, Fin 2], [Fin 3, Fin 4]]),
      (''T'', T2 2 [[Fin 1, Fin 5], [Fin 3, Fin 2]]),
      (''P'', T2 2 [[Fin 1, Fin 2], [Fin 3, Fin 4]]),
      (''XNE'', T2 2 [[Fin 1, Fin 2], [Fin 3, Fin 4]]),
      (''ABROSS'', T2 2 [[Fin 1, Fin 2], [Fin 3, Fin 4]]),
      (''ACCRAD'', T2 2 [[Fin 1, Fin 2], [Fin 3, Fin 4]]),
      (''TAU'', T2 2 [[Fin 1, Fin 2], [Fin 3, Fin 4]])] Map.empty = Inr ps"
  by (rule setup_normalization_Inr) simp

lemma log_bounds:
  "0 < 1 + eps30" "0 < 2 + eps30" "0 < 3 + eps30" "0 < 4 + eps30"
  "0 < 5000 + eps30" "0 < 6000 + eps30" "0 < 5500 + eps30"
  by (simp_all add: eps30_def)

theorem setup_normalization_bundle_bounds_witness:
  "\<exists>original norm_params.
     prepare_data [sample_model 5000 [1, 5] [1, 2], sample_model 6000 [3, 2] [3, 4]] 2 = Inr original \<and>
     setup_normalization original Map.empty = Inr norm_params \<and>
     (''gravity'', T2 1 [[Fin 4], [Fin 4]]) \<in> set original \<and>
     norm_params ''gravity'' = Some \<lparr>p_min = T0 (Fin 4), p_max = T0 (Fin 4), log_scale = False\<rparr> \<and>
     (''RHOX'', T2 2 [[Fin 1, Fin 2], [Fin 3, Fin 4]]) \<in> set original \<and>
     norm_params ''RHOX'' =
       Some \<lparr>p_min = T0 (Fin (log 10 (1 + eps30))), p_max = T0 (Fin (log 10 (4 + eps30))),
             log_scale = True\<rparr>"
proof -
  let ?original = "[(''teff'', T2 1 [[Fin 5000], [Fin 6000]]), (''gravity'', T2 1 [[Fin 4], [Fin 4]]),
      (''feh'', T2 1 [[Fin 0], [Fin 0]]), (''afe'', T2 1 [[Fin (2 / 5)], [Fin (2 / 5)]]),
      (''RHOX'', T2 2 [[Fin 1, Fin 2], [Fin 3, Fin 4]]),
      (''T'', T2 2 [[Fin 1, Fin 5], [Fin 3, Fin 2]]),
      (''P'', T2 2 [[Fin 1, Fin 2], [Fin 3, Fin 4]]),
      (''XNE'', T2 2 [[Fin 1, Fin 2], [Fin 3, Fin 4]]),
      (''ABROSS'', T2 2 [[Fin 1, Fin 2], [Fin 3, Fin 4]]),
      (''ACCRAD'', T2 2 [[Fin 1, Fin 2], [Fin 3, Fin 4]]),
      (''TAU'', T2 2 [[Fin 1, Fin 2], [Fin 3, Fin 4]])]"
  from example_setup obtain ps where ps: "setup_normalization ?original Map.empty = Inr ps"
    by blast
  have g: "(''gravity'', T2 1 [[Fin 4], [Fin 4]]) \<in> set ?original" by simp
  have r: "(''RHOX'', T2 2 [[Fin 1, Fin 2], [Fin 3, Fin 4]]) \<in> set ?original" by simp
  from setup_normalization_bundle_bounds[OF example_prepare ps g]
  obtain mn mx where gb: "ps ''gravity'' = Some \<lparr>p_min = T0 mn, p_max = T0 mx, log_scale = False\<rparr>"
    "is_min_of mn [Fin 4, Fin 4]" "is_max_of mx [Fin 4, Fin 4]"
    by (auto simp: log_params_def)
  have "is_min_of (Fin 4) [Fin 4, Fin 4]" "is_max_of (Fin 4) [Fin 4, Fin 4]"
    by (simp_all add: is_min_of_def is_max_of_def)
  with gb have gv: "mn = Fin 4" "mx = Fin 4"
    by (auto intro: is_min_of_unique is_max_of_unique)
  let ?l = "[Fin (log 10 (1 + eps30)), Fin (log 10 (2 + eps30)), Fin (log 10 (3 + eps30)),
             Fin (log 10 (4 + eps30))]"
  from setup_normalization_bundle_bounds[OF example_prepare ps r]
  obtain mn' mx' where rb: "ps ''RHOX'' = Some \<lparr>p_min = T0 mn', p_max = T0 mx', log_scale = True\<rparr>"
    "is_min_of mn' ?l" "is_max_of mx' ?l"
    using log_bounds by (auto simp: log_params_def)
  have "is_min_of (Fin (log 10 (1 + eps30))) ?l" "is_max_of (Fin (log 10 (4 + eps30))) ?l"
    using log_bounds by (simp_all add: is_min_of_def is_max_of_def)
  with rb have rv: "mn' = Fin (log 10 (1 + eps30))" "mx' = Fin (log 10 (4 + eps30))"
    by (auto intro: is_min_of_unique is_max_of_unique)
  from example_prepare ps g r gb(1) rb(1) gv rv show ?thesis by blast
qed

lemma setup_normalization_entry:
  assumes "setup_normalization items Map.empty = Inr ps" "distinct (map fst items)"
    "(name, data) \<in> set items" "norm_stats name data = Inr q"
  shows "ps name = Some q"
  using setup_normalization_lookup[OF assms(1-3)] assms(4) by auto

text \<open>
  The claim as stated (per-depth-point bounds for a sequence feature) is false: for two
  models with \<^verbatim>\<open>T\<close> profiles \<open>[1, 5]\<close> and \<open>[3, 2]\<close> and \<^verbatim>\<open>max_depth_points = 2\<close>, the
  bounds stored for \<^verbatim>\<open>T\<close> are the scalars 1 and 5, where the per-depth-point bounds
  would be \<open>[1, 2]\<close> and \<open>[3, 5]\<close>.
\<close>

theorem setup_normalization_per_depth_counterexample:
  "bindE (prepare_data [sample_model 5000 [1, 5] [1, 2], sample_model 6000 [3, 2] [3, 4]] 2)
     (\<lambda>original. bindE (setup_normalization original Map.empty)
        (\<lambda>norm_params. Inr (lookup original ''T'', norm_params ''T'')))
   = Inr (Inr (T2 2 [[Fin 1, Fin 5], [Fin 3, Fin 2]]),
          Some \<lparr>p_min = T0 (Fin 1), p_max = T0 (Fin 5), log_scale = False\<rparr>)"
proof -
  let ?original = "[(''teff'', T2 1 [[Fin 5000], [Fin 6000]]), (''gravity'', T2 1 [[Fin 4], [Fin 4]]),
      (''feh'', T2 1 [[Fin 0], [Fin 0]]), (''afe'', T2 1 [[Fin (2 / 5)], [Fin (2 / 5)]]),
      (''RHOX'', T2 2 [[Fin 1, Fin 2], [Fin 3, Fin 4]]),
      (''T'', T2 2 [[Fin 1, Fin 5], [Fin 3, Fin 2]]),
      (''P'', T2 2 [[Fin 1, Fin 2], [Fin 3, Fin 4]]),
      (''XNE'', T2 2 [[Fin 1, Fin 2], [Fin 3, Fin 4]]),
      (''ABROSS'', T2 2 [[Fin 1, Fin 2], [Fin 3, Fin 4]]),
      (''ACCRAD'', T2 2 [[Fin 1, Fin 2], [Fin 3, Fin 4]]),
      (''TAU'', T2 2 [[Fin 1, Fin 2], [Fin 3, Fin 4]])]"
  from example_setup obtain ps where ps: "setup_normalization ?original Map.empty = Inr ps"
    by blast
  have "norm_stats ''T'' (T2 2 [[Fin 1, Fin 5], [Fin 3, Fin 2]]) =
      Inr \<lparr>p_min = T0 (Fin 1), p_max = T0 (Fin 5), log_scale = False\<rparr>"
    by (simp add: norm_stats_def log_params_def reduce_all_def bindE_def Let_def)
  from setup_normalization_entry[OF ps _ _ this]
  have "ps ''T'' = Some \<lparr>p_min = T0 (Fin 1), p_max = T0 (Fin 5), log_scale = False\<rparr>"
    by simp
  then show ?thesis unfolding example_prepare using ps by (simp add: bindE_def lookup_def)
qed

subsection \<open>Fitted bounds: round trip and range\<close>

lemma setup_normalization_fitted:
  assumes "setup_normalization items Map.empty = Inr ps" "distinct (map fst items)"
    "ps name = Some p"
  shows "\<exists>data. (name, data) \<in> set items \<and> norm_stats name data = Inr p"
proof (cases "name \<in> fst ` set items")
  case True
  then obtain data where d: "(name, data) \<in> set items" by auto
  from setup_normalization_lookup[OF assms(1,2) d] assms(3) d show ?thesis by auto
next
  case False
  from setup_normalization_other[OF assms(1) False] assms(3) show ?thesis by simp
qed

lemma finite_val_Fin: "finite_val x \<Longrightarrow> \<exists>r. x = Fin r"
  by (cases x) simp_all

lemma norm_stats_finite:
  assumes "norm_stats name data = Inr p" "ndim data \<le> 2"
    and "all_finite (p_min p)" "all_finite (p_max p)" "p_max p \<noteq> p_min p"
  shows "\<exists>mn mx. p_min p = T0 (Fin mn) \<and> p_max p = T0 (Fin mx) \<and> mx \<noteq> mn"
proof -
  from norm_stats_scalar[OF assms(1,2)] obtain mn mx where
    m: "p_min p = T0 mn" "p_max p = T0 mx" by auto
  with assms(3,4) obtain a b where "mn = Fin a" "mx = Fin b"
    by (auto simp: all_finite_def dest!: finite_val_Fin)
  with m assms(5) show ?thesis by auto
qed




lemma example_teff_bounds:
  assumes "setup_normalization
     [(''teff'', T2 1 [[Fin 5000], [Fin 6000]]), (''gravity'', T2 1 [[Fin 4], [Fin 4]]),
      (''feh'', T2 1 [[Fin 0], [Fin 0]]), (''afe'', T2 1 [[Fin (2 / 5)], [Fin (2 / 5)]]),
      (''RHOX'', T2 2 [[Fin 1, Fin 2], [Fin 3, Fin 4]]),
      (''T'', T2 2 [[Fin 1, Fin 5], [Fin 3, Fin 2]]),
      (''P'', T2 2 [[Fin 1, Fin 2], [Fin 3, Fin 4]]),
      (''XNE'', T2 2 [[Fin 1, Fin 2], [Fin 3, Fin 4]]),
      (''ABROSS'', T2 2 [[Fin 1, Fin 2], [Fin 3, Fin 4]]),
      (''ACCRAD'', T2 2 [[Fin 1, Fin 2], [Fin 3, Fin 4]]),
      (''TAU'', T2 2 [[Fin 1, Fin 2], [Fin 3, Fin 4]])] Map.empty = Inr ps"
  shows "ps ''teff'' = Some \<lparr>p_min = T0 (Fin (log 10 (5000 + eps30))),
           p_max = T0 (Fin (log 10 (6000 + eps30))), log_scale = True\<rparr>"
    and "ps ''T'' = Some \<lparr>p_min = T0 (Fin 1), p_max = T0 (Fin 5), log_scale = False\<rparr>"
    and "log 10 (6000 + eps30) \<noteq> log 10 (5000 + eps30)"
proof -
  have lt: "log 10 (5000 + eps30) < log 10 (6000 + eps30)" using log_bounds by simp
  then show "log 10 (6000 + eps30) \<noteq> log 10 (5000 + eps30)" by simp
  have "norm_stats ''teff'' (T2 1 [[Fin 5000], [Fin 6000]]) =
      Inr \<lparr>p_min = T0 (Fin (log 10 (5000 + eps30))),
           p_max = T0 (Fin (log 10 (6000 + eps30))), log_scale = True\<rparr>"
    using log_bounds lt
    by (simp add: norm_stats_def log_params_def reduce_all_def bindE_def Let_def min_def max_def)
  from setup_normalization_entry[OF assms _ _ this]
  show "ps ''teff'' = Some \<lparr>p_min = T0 (Fin (log 10 (5000 + eps30))),
           p_max = T0 (Fin (log 10 (6000 + eps30))), log_scale = True\<rparr>" by simp
  have "norm_stats ''T'' (T2 2 [[Fin 1, Fin 5], [Fin 3, Fin 2]]) =
      Inr \<lparr>p_min = T0 (Fin 1), p_max = T0 (Fin 5), log_scale = False\<rparr>"
    by (simp add: norm_stats_def log_params_def reduce_all_def bindE_def Let_def)
  from setup_normalization_entry[OF assms _ _ this]
  show "ps ''T'' = Some \<lparr>p_min = T0 (Fin 1), p_max = T0 (Fin 5), log_scale = False\<rparr>"
    by simp
qed


text \<open>
  A bundle in which the log-scaled profiles have the entry \<open>-1e-30\<close>: its logarithm is
  \<open>-inf\<close>, so the fitted minimum is \<open>-inf\<close> while the fitted maximum is finite.
\<close>

lemma edge_prepare:
  "prepare_data [sample_model 5000 [1, 5] [- eps30, 1], sample_model 6000 [3, 2] [3, 4]] 2 =
   Inr [(''teff'', T2 1 [[Fin 5000], [Fin 6000]]), (''gravity'', T2 1 [[Fin 4], [Fin 4]]),
        (''feh'', T2 1 [[Fin 0], [Fin 0]]), (''afe'', T2 1 [[Fin (2 / 5)], [Fin (2 / 5)]]),
        (''RHOX'', T2 2 [[Fin (- eps30), Fin 1], [Fin 3, Fin 4]]),
        (''T'', T2 2 [[Fin 1, Fin 5], [Fin 3, Fin 2]]),
        (''P'', T2 2 [[Fin (- eps30), Fin 1], [Fin 3, Fin 4]]),
        (''XNE'', T2 2 [[Fin (- eps30), Fin 1], [Fin 3, Fin 4]]),
        (''ABROSS'', T2 2 [[Fin (- eps30), Fin 1], [Fin 3, Fin 4]]),
        (''ACCRAD'', T2 2 [[Fin (- eps30), Fin 1], [Fin 3, Fin 4]]),
        (''TAU'', T2 2 [[Fin (- eps30), Fin 1], [Fin 3, Fin 4]])]"
  by (simp add: prepare_data_def pad_profiles_def pad_sequence_def slice_to_def bindE_def
      sample_model_def matrix_tensor_def same_length_def column_tensor_def or_zero_def Let_def)

lemma edge_setup:
  "\<exists>ps. setup_normalization
     [(''teff'', T2 1 [[Fin 5000], [Fin 6000]]), (''gravity'', T2 1 [[Fin 4], [Fin 4]]),
      (''feh'', T2 1 [[Fin 0], [Fin 0]]), (''afe'', T2 1 [[Fin (2 / 5)], [Fin (2 / 5)]]),
      (''RHOX'', T2 2 [[Fin (- eps30), Fin 1], [Fin 3, Fin 4]]),
      (''T'', T2 2 [[Fin 1, Fin 5], [Fin 3, Fin 2]]),
      (''P'', T2 2 [[Fin (- eps30), Fin 1], [Fin 3, Fin 4]]),
      (''XNE'', T2 2 [[Fin (- eps30), Fin 1], [Fin 3, Fin 4]]),
      (''ABROSS'', T2 2 [[Fin (- eps30), Fin 1], [Fin 3, Fin 4]]),
      (''ACCRAD'', T2 2 [[Fin (- eps30), Fin 1], [Fin 3, Fin 4]]),
      (''TAU'', T2 2 [[Fin (- eps30), Fin 1], [Fin 3, Fin 4]])] Map.empty = Inr ps \<and>
     ps ''RHOX'' = Some \<lparr>p_min = T0 MInf, p_max = T0 (Fin (log 10 (4 + eps30))), log_scale = True\<rparr>"
proof -
  let ?original = "[(''teff'', T2 1 [[Fin 5000], [Fin 6000]]), (''gravity'', T2 1 [[Fin 4], [Fin 4]]),
      (''feh'', T2 1 [[Fin 0], [Fin 0]]), (''afe'', T2 1 [[Fin (2 / 5)], [Fin (2 / 5)]]),
      (''RHOX'', T2 2 [[Fin (- eps30), Fin 1], [Fin 3, Fin 4]]),
      (''T'', T2 2 [[Fin 1, Fin 5], [Fin 3, Fin 2]]),
      (''P'', T2 2 [[Fin (- eps30), Fin 1], [Fin 3, Fin 4]]),
      (''XNE'', T2 2 [[Fin (- eps30), Fin 1], [Fin 3, Fin 4]]),
      (''ABROSS'', T2 2 [[Fin (- eps30), Fin 1], [Fin 3, Fin 4]]),
      (''ACCRAD'', T2 2 [[Fin (- eps30), Fin 1], [Fin 3, Fin 4]]),
      (''TAU'', T2 2 [[Fin (- eps30), Fin 1], [Fin 3, Fin 4]])]"
  have "list_all (\<lambda>(n, d). elems d \<noteq> [] \<and> ndim d \<le> 2) ?original" by simp
  from setup_normalization_Inr[OF this, of Map.empty] obtain ps where
    ps: "setup_normalization ?original Map.empty = Inr ps" by blast
  have "norm_stats ''RHOX'' (T2 2 [[Fin (- eps30), Fin 1], [Fin 3, Fin 4]]) =
      Inr \<lparr>p_min = T0 MInf, p_max = T0 (Fin (log 10 (4 + eps30))), log_scale = True\<rparr>"
    using log_bounds
    by (simp add: norm_stats_def log_params_def reduce_all_def bindE_def Let_def max_def)
  from setup_normalization_entry[OF ps _ _ this] ps show ?thesis by simp
qed


text \<open>
  Claim C9, as amended. For every feature of a constructed bundle whose fitted bounds
  are finite with max different from min, \<^verbatim>\<open>normalize\<close> maps the tensor the bounds were
  fitted on, and each of its values, into \<open>[-1, 1]\<close>; the fitted minimum and maximum are
  attained by values of that tensor, and any value whose transform is the fitted minimum
  maps to exactly \<open>-1\<close>, any value whose transform is the fitted maximum to exactly \<open>1\<close>.
\<close>

theorem normalize_fitted_range:
  assumes "prepare_data models max_depth_points = Inr original"
    and "setup_normalization original Map.empty = Inr norm_params"
    and "(name, data) \<in> set original"
    and "norm_params name = Some p"
    and "all_finite (p_min p)" and "all_finite (p_max p)" and "p_max p \<noteq> p_min p"
  shows "\<exists>mn mx. p_min p = T0 (Fin mn) \<and> p_max p = T0 (Fin mx) \<and>
         (\<exists>nd. normalize_feature norm_params name data = Inr nd \<and>
            (\<forall>y\<in>set (elems nd). \<exists>r. y = Fin r \<and> - 1 \<le> r \<and> r \<le> 1)) \<and>
         (\<forall>v\<in>set (elems data). \<exists>r. normalize_feature norm_params name (T0 v) = Inr (T0 (Fin r)) \<and>
            - 1 \<le> r \<and> r \<le> 1) \<and>
         (\<exists>v\<in>set (elems data). log_transform (log_scale p) v = Fin mn) \<and>
         (\<exists>v\<in>set (elems data). log_transform (log_scale p) v = Fin mx) \<and>
         (\<forall>v. log_transform (log_scale p) v = Fin mn \<longrightarrow>
            normalize_feature norm_params name (T0 v) = Inr (T0 (Fin (- 1)))) \<and>
         (\<forall>v. log_transform (log_scale p) v = Fin mx \<longrightarrow>
            normalize_feature norm_params name (T0 v) = Inr (T0 (Fin 1)))"
proof -
  from prepare_data_Inr[OF assms(1)] obtain padded where b: "bundle_of padded original" by blast
  from bundle_names[OF b] have "distinct (map fst original)" by simp
  from setup_normalization_lookup[OF assms(2) this assms(3)] assms(4)
  have fit: "norm_stats name data = Inr p" by auto
  note d = bundle_dims[OF b assms(3)]
  from norm_stats_finite[OF fit d assms(5-7)] obtain mn mx where
    m: "p_min p = T0 (Fin mn)" "p_max p = T0 (Fin mx)" "mx \<noteq> mn" by blast
  from normalize_range_finite_bounds[of name data p norm_params mn mx] fit d assms(4) m
  show ?thesis by blast
qed

theorem normalize_fitted_range_witness:
  "\<exists>original norm_params.
     prepare_data [sample_model 5000 [1, 5] [1, 2], sample_model 6000 [3, 2] [3, 4]] 2 = Inr original \<and>
     setup_normalization original Map.empty = Inr norm_params \<and>
     (''T'', T2 2 [[Fin 1, Fin 5], [Fin 3, Fin 2]]) \<in> set original \<and>
     norm_params ''T'' = Some \<lparr>p_min = T0 (Fin 1), p_max = T0 (Fin 5), log_scale = False\<rparr> \<and>
     normalize_feature norm_params ''T'' (T0 (Fin 1)) = Inr (T0 (Fin (- 1))) \<and>
     normalize_feature norm_params ''T'' (T0 (Fin 5)) = Inr (T0 (Fin 1)) \<and>
     (\<exists>nd. normalize_feature norm_params ''T'' (T2 2 [[Fin 1, Fin 5], [Fin 3, Fin 2]]) = Inr nd \<and>
        (\<forall>y\<in>set (elems nd). \<exists>r. y = Fin r \<and> - 1 \<le> r \<and> r \<le> 1))"
proof -
  let ?original = "[(''teff'', T2 1 [[Fin 5000], [Fin 6000]]), (''gravity'', T2 1 [[Fin 4], [Fin 4]]),
      (''feh'', T2 1 [[Fin 0], [Fin 0]]), (''afe'', T2 1 [[Fin (2 / 5)], [Fin (2 / 5)]]),
      (''RHOX'', T2 2 [[Fin 1, Fin 2], [Fin 3, Fin 4]]),
      (''T'', T2 2 [[Fin 1, Fin 5], [Fin 3, Fin 2]]),
      (''P'', T2 2 [[Fin 1, Fin 2], [Fin 3, Fin 4]]),
      (''XNE'', T2 2 [[Fin 1, Fin 2], [Fin 3, Fin 4]]),
      (''ABROSS'', T2 2 [[Fin 1, Fin 2], [Fin 3, Fin 4]]),
      (''ACCRAD'', T2 2 [[Fin 1, Fin 2], [Fin 3, Fin 4]]),
      (''TAU'', T2 2 [[Fin 1, Fin 2], [Fin 3, Fin 4]])]"
  from example_setup obtain ps where ps: "setup_normalization ?original Map.empty = Inr ps"
    by blast
  note b = example_teff_bounds[OF ps]
  let ?p = "\<lparr>p_min = T0 (Fin 1), p_max = T0 (Fin 5), log_scale = False\<rparr>"
  have f: "all_finite (p_min ?p)" "all_finite (p_max ?p)" "p_max ?p \<noteq> p_min ?p"
    by (simp_all add: all_finite_def)
  have i: "(''T'', T2 2 [[Fin 1, Fin 5], [Fin 3, Fin 2]]) \<in> set ?original" by simp
  from normalize_fitted_range[OF example_prepare ps i b(2) f]
  have "normalize_feature ps ''T'' (T0 (Fin 1)) = Inr (T0 (Fin (- 1)))"
    "normalize_feature ps ''T'' (T0 (Fin 5)) = Inr (T0 (Fin 1))"
    "\<exists>nd. normalize_feature ps ''T'' (T2 2 [[Fin 1, Fin 5], [Fin 3, Fin 2]]) = Inr nd \<and>
        (\<forall>y\<in>set (elems nd). \<exists>r. y = Fin r \<and> - 1 \<le> r \<and> r \<le> 1)"
    by simp_all
  with example_prepare ps i b(2) show ?thesis by blast
qed

text \<open>
  The claim as stated (max different from min is enough) is false: in the bundle with
  the entry \<open>-1e-30\<close> the fitted bounds of \<^verbatim>\<open>RHOX\<close> are \<open>-inf\<close> and \<open>log10(4 + 1e-30)\<close>, so
  max differs from min, and \<^verbatim>\<open>normalize\<close> maps every value the bounds were fitted on to
  NaN, none into \<open>[-1, 1]\<close>.
\<close>

theorem normalize_infinite_bound_counterexample:
  "bindE (prepare_data [sample_model 5000 [1, 5] [- eps30, 1], sample_model 6000 [3, 2] [3, 4]] 2)
     (\<lambda>original. bindE (setup_normalization original Map.empty)
        (\<lambda>norm_params. bindE (lookup original ''RHOX'')
           (\<lambda>data. bindE (normalize_feature norm_params ''RHOX'' data)
              (\<lambda>nd. Inr (data, norm_params ''RHOX'', nd)))))
   = Inr (T2 2 [[Fin (- eps30), Fin 1], [Fin 3, Fin 4]],
          Some \<lparr>p_min = T0 MInf, p_max = T0 (Fin (log 10 (4 + eps30))), log_scale = True\<rparr>,
          T2 2 [[NaN, NaN], [NaN, NaN]]) \<and>
   T0 (Fin (log 10 (4 + eps30))) \<noteq> T0 MInf"
proof -
  from edge_setup obtain qs where qs: "setup_normalization
     [(''teff'', T2 1 [[Fin 5000], [Fin 6000]]), (''gravity'', T2 1 [[Fin 4], [Fin 4]]),
      (''feh'', T2 1 [[Fin 0], [Fin 0]]), (''afe'', T2 1 [[Fin (2 / 5)], [Fin (2 / 5)]]),
      (''RHOX'', T2 2 [[Fin (- eps30), Fin 1], [Fin 3, Fin 4]]),
      (''T'', T2 2 [[Fin 1, Fin 5], [Fin 3, Fin 2]]),
      (''P'', T2 2 [[Fin (- eps30), Fin 1], [Fin 3, Fin 4]]),
      (''XNE'', T2 2 [[Fin (- eps30), Fin 1], [Fin 3, Fin 4]]),
      (''ABROSS'', T2 2 [[Fin (- eps30), Fin 1], [Fin 3, Fin 4]]),
      (''ACCRAD'', T2 2 [[Fin (- eps30), Fin 1], [Fin 3, Fin 4]]),
      (''TAU'', T2 2 [[Fin (- eps30), Fin 1], [Fin 3, Fin 4]])] Map.empty = Inr qs"
    and q: "qs ''RHOX'' = Some \<lparr>p_min = T0 MInf, p_max = T0 (Fin (log 10 (4 + eps30))), log_scale = True\<rparr>"
    by blast
  have "normalize_feature qs ''RHOX'' (T2 2 [[Fin (- eps30), Fin 1], [Fin 3, Fin 4]]) =
      Inr (T2 2 [[NaN, NaN], [NaN, NaN]])"
    using log_bounds by (simp add: normalize_feature_def bindE_def q fsub_def signed_inf_def)
  then show ?thesis
    unfolding edge_prepare using qs q by (simp add: bindE_def lookup_def)
qed

text \<open>
  The entries of a constructed bundle are finite, so a fitted bound is never \<open>+inf\<close>: for
  fitted bounds with max different from min, to be finite is to have a minimum other
  than \<open>-inf\<close>.
\<close>

lemma bundle_entries_finite:
  assumes "bundle_of padded original" "(name, data) \<in> set original"
  shows "all_finite data"
proof -
  have c: "all_finite (column_tensor xs)" for xs
    by (simp add: all_finite_def column_tensor_def list_all_iff)
  have m: "all_finite t" if "matrix_tensor rows = Inr t" for rows t
    using matrix_tensor_Inr[OF that] by (auto simp: all_finite_def list_all_iff)
  from assms show ?thesis unfolding bundle_of_def by (auto simp: c m)
qed

lemma fitted_bounds_finite_iff:
  assumes "prepare_data models max_depth_points = Inr original"
    and "setup_normalization original Map.empty = Inr norm_params"
    and "norm_params name = Some p" and "p_max p \<noteq> p_min p"
  shows "(all_finite (p_min p) \<and> all_finite (p_max p)) = (p_min p \<noteq> T0 MInf)"
proof -
  from prepare_data_Inr[OF assms(1)] obtain padded where b: "bundle_of padded original" by blast
  from bundle_names[OF b] have "distinct (map fst original)" by simp
  from setup_normalization_fitted[OF assms(2) this assms(3)] obtain data where
    d: "(name, data) \<in> set original" "norm_stats name data = Inr p" by blast
  let ?xs = "map (transformed name) (elems data)"
  from norm_stats_scalar[OF d(2) bundle_dims[OF b d(1)]] obtain mn mx where
    p: "p_min p = T0 mn" "p_max p = T0 mx" and lo: "is_min_of mn ?xs" and hi: "is_max_of mx ?xs"
    by auto
  from assms(4) p have ne: "mx \<noteq> mn" by simp
  have np: "y \<noteq> PInf" if "y \<in> set ?xs" for y
  proof -
    from that obtain x where x: "x \<in> set (elems data)" "y = transformed name x" by auto
    with bundle_entries_finite[OF b d(1)] obtain r where "x = Fin r"
      by (auto simp: all_finite_def list_all_iff dest!: finite_val_Fin)
    with x show ?thesis by (simp add: transformed_def)
  qed
  have "finite_val mn \<and> finite_val mx" if m: "mn \<noteq> MInf"
  proof -
    have n: "NaN \<notin> set ?xs"
    proof
      assume "NaN \<in> set ?xs"
      with lo hi have "mn = NaN" "mx = NaN" by (simp_all add: is_min_of_def is_max_of_def)
      with ne show False by simp
    qed
    with lo hi have i: "mn \<in> set ?xs" "mx \<in> set ?xs" "fle mn mx"
      by (auto simp: is_min_of_def is_max_of_def)
    from n i(1) have "mn \<noteq> NaN" by blast
    moreover from np[OF i(1)] have "mn \<noteq> PInf" .
    ultimately obtain a where a: "mn = Fin a" using m by (cases mn) simp_all
    from n i(2) have "mx \<noteq> NaN" by blast
    moreover from np[OF i(2)] have "mx \<noteq> PInf" .
    moreover from i(3) a have "mx \<noteq> MInf" by auto
    ultimately obtain c where "mx = Fin c" by (cases mx) simp_all
    with a show ?thesis by simp
  qed
  then show ?thesis using p by (auto simp: all_finite_def)
qed

subsection \<open>Samples\<close>



















end
